theory Spec2Isabelle
  imports Main "HOL-Library.AList" "HOL-Library.Char_ord" "HOL-Library.List_Lexorder"
begin

section \<open>Shared helpers: decimal rendering, time\<close>

text \<open>
  Go's \<^verbatim>\<open>%d\<close> verb and \<^verbatim>\<open>fmt.Sprint\<close> on an int print the decimal digits, with a
  leading minus sign for a negative value.
\<close>

definition digit :: "nat \<Rightarrow> char" where
  "digit n = ''0123456789'' ! n"

fun decimal :: "nat \<Rightarrow> string" where
  "decimal n = (if n < 10 then [digit n] else decimal (n div 10) @ [digit (n mod 10)])"

declare decimal.simps [simp del]

definition itoa :: "int \<Rightarrow> string" where
  "itoa i = (if i < 0 then CHR ''-'' # decimal (nat (- i)) else decimal (nat i))"

text \<open>
  A \<^verbatim>\<open>time.Time\<close> is the number of nanoseconds since the zero time, a
  \<^verbatim>\<open>time.Duration\<close> a number of nanoseconds. \<^verbatim>\<open>timeZero\<close> is the declared,
  never assigned variable of the ADS file.
\<close>

type_synonym time = int

definition timeZero :: time where
  "timeZero = 0"

definition IsZero :: "time \<Rightarrow> bool" where
  "IsZero t = (t = 0)"

definition Second :: int where
  "Second = 1000000000"

section \<open>The ADS stream loop and the push coordinator (package v2)\<close>

subsection \<open>Data\<close>

datatype NodeType = Sidecar | Ingress | Router | OtherNodeType string

record Proxy =
  Proxy_Type :: NodeType
  IPAddress :: string
  ID :: string
  Domain :: string
  Metadata :: "(string \<times> string) list"

record CoreNode =
  Id :: string
  NodeMetadata :: "(string \<times> string) list"

text \<open>
  \<^verbatim>\<open>discReq.Node\<close> is a pointer (\<^verbatim>\<open>None\<close> is nil), and so is
  \<^verbatim>\<open>discReq.ErrorDetail\<close>, of which only the message is read.
\<close>

record DiscoveryRequest =
  Node :: "CoreNode option"
  TypeUrl :: string
  ResourceNames :: "string list"
  VersionInfo :: string
  ResponseNonce :: string
  ErrorDetail :: "string option"

text \<open>
  The four type URLs are constants of the package declared beside the ADS file; their
  values are those of the upstream schema.
\<close>

definition ClusterType :: string where
  "ClusterType = ''type.googleapis.com/envoy.api.v2.Cluster''"

definition ListenerType :: string where
  "ListenerType = ''type.googleapis.com/envoy.api.v2.Listener''"

definition RouteType :: string where
  "RouteType = ''type.googleapis.com/envoy.api.v2.RouteConfiguration''"

definition EndpointType :: string where
  "EndpointType = ''type.googleapis.com/envoy.api.v2.ClusterLoadAssignment''"

text \<open>A route configuration is an opaque payload here: the generator's output, by name.\<close>

type_synonym RouteConfiguration = string

datatype DiscoveryResponse =
  Response (resp_TypeUrl: string) (resp_Resources: "string list")

text \<open>
  \<^verbatim>\<open>XdsConnection\<close>. The channels are not fields of the model: what a select over
  them chooses is an input of the step that selects. \<^verbatim>\<open>doneClosed\<close> records the
  deferred \<^verbatim>\<open>close(con.doneChannel)\<close>. \<^verbatim>\<open>HTTPListeners\<close> and
  \<^verbatim>\<open>HTTPClusters\<close> are written only by the LDS and CDS generators and are left out.
\<close>

record XdsConnection =
  PeerAddr :: string
  Connect :: time
  ConID :: string
  modelNode :: "Proxy option"
  RouteConfigs :: "(string \<times> RouteConfiguration) list"
  Clusters :: "string list"
  Routes :: "string list"
  LDSWatch :: bool
  CDSWatch :: bool
  added :: bool
  LastPush :: time
  LastPushFailure :: time
  doneClosed :: bool

text \<open>
  The package-level state. Connections are objects shared through pointers (the
  registry, the EDS index and the stream loop hold the same \<^verbatim>\<open>*XdsConnection\<close>), so
  \<^verbatim>\<open>conns\<close> is the store from addresses to connection objects and the maps hold
  addresses. Go maps are association lists with distinct keys; \<^verbatim>\<open>len\<close> is their
  length. \<^verbatim>\<open>sent\<close> is the trace of the responses written to each stream, and
  \<^verbatim>\<open>warnings\<close> the messages the push coordinator logs.
\<close>

record DiscoveryServer =
  conns :: "nat \<Rightarrow> XdsConnection"
  adsClients :: "(string \<times> nat) list"
  adsSidecarIDConnectionsMap :: "(string \<times> (string \<times> nat) list) list"
  edsClusters :: "(string \<times> (string \<times> nat) list) list"
  connectionNumber :: nat
  sent :: "(nat \<times> DiscoveryResponse) list"
  warnings :: "string list"
  xdsClients :: nat
  cdsReject :: "string \<times> string \<Rightarrow> nat"
  ldsReject :: "string \<times> string \<Rightarrow> nat"
  edsReject :: "string \<times> string \<Rightarrow> nat"
  writeTimeout :: nat
  pushTimeouts :: nat
  pushes :: "string \<Rightarrow> nat"
  pushErrors :: "string \<Rightarrow> nat"

datatype send_outcome = SendOk | SendError string | SendTimeout

text \<open>
  What the stream loop reads from outside itself during one step: the node-id parser and
  the metadata parser of the model package, the route generator, the result of the
  registry lookup in \<^verbatim>\<open>pushRoute\<close>, what happens to the transport send there, and
  the error (if any) of each of the three push functions defined in other files.
\<close>

record StreamEnv =
  ParseServiceNode :: "string \<Rightarrow> string + Proxy"
  ParseMetadata :: "(string \<times> string) list \<Rightarrow> (string \<times> string) list"
  BuildRouteConfig :: "string \<Rightarrow> RouteConfiguration"
  proxyInstancesErr :: "string option"
  sendResult :: send_outcome
  pushCdsErr :: "string option"
  pushLdsErr :: "string option"
  pushEdsErr :: "string option"

text \<open>
  The result of a step of the loop: it goes on, it returns (with the error returned, nil
  as \<^verbatim>\<open>None\<close>), or it panics on a nil pointer.
\<close>

datatype 'a outcome = Continue 'a | Return "string option" 'a | Panic

fun andThen :: "'a outcome \<Rightarrow> ('a \<Rightarrow> 'a outcome) \<Rightarrow> 'a outcome" where
  "andThen (Continue s) f = f s"
| "andThen (Return e s) f = Return e s"
| "andThen Panic f = Panic"

definition updCon :: "nat \<Rightarrow> (XdsConnection \<Rightarrow> XdsConnection) \<Rightarrow> DiscoveryServer \<Rightarrow> DiscoveryServer" where
  "updCon p f s = s\<lparr>conns := (conns s)(p := f (conns s p))\<rparr>"

definition newXdsConnection :: "string \<Rightarrow> time \<Rightarrow> XdsConnection" where
  "newXdsConnection peerAddr now =
     \<lparr>PeerAddr = peerAddr, Connect = now, ConID = [], modelNode = None, RouteConfigs = [],
      Clusters = [], Routes = [], LDSWatch = False, CDSWatch = False, added = False,
      LastPush = timeZero, LastPushFailure = timeZero, doneClosed = False\<rparr>"

subsection \<open>The EDS index and the connection id\<close>

text \<open>
  Modelled from the spec: \<^verbatim>\<open>addEdsCon\<close>, \<^verbatim>\<open>removeEdsCon\<close> and the map
  \<^verbatim>\<open>edsClusters\<close> are defined in the EDS file of the package. The spec gives the
  index as \<^verbatim>\<open>cluster_name \<rightarrow> { conn_id \<rightarrow> connection }\<close>: adding enters the
  connection under its id in the cluster's entry (creating the entry), removing deletes
  that id from the entry.
\<close>

definition edsEntry :: "(string \<times> (string \<times> nat) list) list \<Rightarrow> string \<Rightarrow> (string \<times> nat) list" where
  "edsEntry idx clusterName = (case map_of idx clusterName of None \<Rightarrow> [] | Some m \<Rightarrow> m)"


definition addEdsCon :: "string \<Rightarrow> string \<Rightarrow> nat \<Rightarrow> DiscoveryServer \<Rightarrow> DiscoveryServer" where
  "addEdsCon clusterName conID p s =
     s\<lparr>edsClusters :=
         AList.update clusterName (AList.update conID p (edsEntry (edsClusters s) clusterName))
           (edsClusters s)\<rparr>"

definition removeEdsCon :: "string \<Rightarrow> string \<Rightarrow> nat \<Rightarrow> DiscoveryServer \<Rightarrow> DiscoveryServer" where
  "removeEdsCon clusterName conID p s =
     (case map_of (edsClusters s) clusterName of
        None \<Rightarrow> s
      | Some m \<Rightarrow> s\<lparr>edsClusters := AList.update clusterName (AList.delete conID m) (edsClusters s)\<rparr>)"

text \<open>
  Modelled from the spec: \<^verbatim>\<open>connectionID\<close> is defined in the EDS file. The spec: the
  id is assigned "using a monotonically increasing counter combined with the node id".
\<close>

definition connectionID :: "string \<Rightarrow> DiscoveryServer \<Rightarrow> string \<times> DiscoveryServer" where
  "connectionID node s =
     (node @ ''-'' @ itoa (int (connectionNumber s + 1)),
      s\<lparr>connectionNumber := connectionNumber s + 1\<rparr>)"

subsection \<open>The push functions\<close>

text \<open>
  Modelled from the spec: \<^verbatim>\<open>pushCds\<close>, \<^verbatim>\<open>pushLds\<close> and \<^verbatim>\<open>pushEds\<close> are
  defined in the CDS, LDS and EDS files. Each regenerates one resource type and sends it
  as one DiscoveryResponse, or returns an error (a generator error or a send failure)
  having sent nothing; the EDS response carries the clusters the connection watches.
\<close>

definition pushCds :: "StreamEnv \<Rightarrow> nat \<Rightarrow> DiscoveryServer \<Rightarrow> DiscoveryServer outcome" where
  "pushCds env p s =
     (case pushCdsErr env of
        Some err \<Rightarrow> Return (Some err) s
      | None \<Rightarrow> Continue (s\<lparr>sent := sent s @ [(p, Response ClusterType [])]\<rparr>))"

definition pushLds :: "StreamEnv \<Rightarrow> nat \<Rightarrow> DiscoveryServer \<Rightarrow> DiscoveryServer outcome" where
  "pushLds env p s =
     (case pushLdsErr env of
        Some err \<Rightarrow> Return (Some err) s
      | None \<Rightarrow> Continue (s\<lparr>sent := sent s @ [(p, Response ListenerType [])]\<rparr>))"

definition pushEds :: "StreamEnv \<Rightarrow> nat \<Rightarrow> DiscoveryServer \<Rightarrow> DiscoveryServer outcome" where
  "pushEds env p s =
     (case pushEdsErr env of
        Some err \<Rightarrow> Return (Some err) s
      | None \<Rightarrow> Continue (s\<lparr>sent := sent s @ [(p, Response EndpointType (Clusters (conns s p)))]\<rparr>))"

text \<open>\<^verbatim>\<open>XdsConnection.send\<close>: the transport send raced against the send timer.\<close>

definition send :: "StreamEnv \<Rightarrow> nat \<Rightarrow> DiscoveryResponse \<Rightarrow> DiscoveryServer \<Rightarrow> string option \<times> DiscoveryServer" where
  "send env p res s =
     (case sendResult env of
        SendTimeout \<Rightarrow> (Some ''timeout sending'', s\<lparr>writeTimeout := writeTimeout s + 1\<rparr>)
      | SendError err \<Rightarrow> (Some err, s)
      | SendOk \<Rightarrow> (None, s\<lparr>sent := sent s @ [(p, res)]\<rparr>))"

definition routeDiscoveryResponse :: "RouteConfiguration list \<Rightarrow> DiscoveryResponse" where
  "routeDiscoveryResponse ls = Response RouteType ls"

definition bump :: "('k \<Rightarrow> nat) \<Rightarrow> 'k \<Rightarrow> ('k \<Rightarrow> nat)" where
  "bump m k = m(k := m k + 1)"

text \<open>
  \<^verbatim>\<open>pushRoute\<close>. The node pointer is dereferenced once the registry lookup has
  succeeded (\<^verbatim>\<open>*con.modelNode\<close>), which panics on nil.
\<close>

definition pushRoute :: "StreamEnv \<Rightarrow> nat \<Rightarrow> DiscoveryServer \<Rightarrow> DiscoveryServer outcome" where
  "pushRoute env p s =
     (case proxyInstancesErr env of
        Some err \<Rightarrow> Return (Some err) (s\<lparr>pushes := bump (pushes s) ''rds_conferr''\<rparr>)
      | None \<Rightarrow>
          (case modelNode (conns s p) of
             None \<Rightarrow> Panic
           | Some node \<Rightarrow>
               (let rc = map (BuildRouteConfig env) (Routes (conns s p));
                    s1 = updCon p (\<lambda>c. c\<lparr>RouteConfigs :=
                           fold (\<lambda>routeName. AList.update routeName (BuildRouteConfig env routeName))
                             (Routes c) (RouteConfigs c)\<rparr>) s
                in case send env p (routeDiscoveryResponse rc) s1 of
                     (Some err, s2) \<Rightarrow> Return (Some err) (s2\<lparr>pushes := bump (pushes s2) ''rds_senderr''\<rparr>)
                   | (None, s2) \<Rightarrow> Continue (s2\<lparr>pushes := bump (pushes s2) ''rds''\<rparr>))))"

subsection \<open>The client registry\<close>

definition addCon :: "string \<Rightarrow> nat \<Rightarrow> DiscoveryServer \<Rightarrow> DiscoveryServer" where
  "addCon conID p s =
     (let clients = AList.update conID p (adsClients s);
          s1 = s\<lparr>adsClients := clients, xdsClients := length clients\<rparr>
      in case modelNode (conns s1 p) of
           None \<Rightarrow> s1
         | Some node \<Rightarrow>
             (case map_of (adsSidecarIDConnectionsMap s1) (ID node) of
                None \<Rightarrow> s1\<lparr>adsSidecarIDConnectionsMap :=
                          AList.update (ID node) [(conID, p)] (adsSidecarIDConnectionsMap s1)\<rparr>
              | Some m \<Rightarrow> s1\<lparr>adsSidecarIDConnectionsMap :=
                          AList.update (ID node) (AList.update conID p m) (adsSidecarIDConnectionsMap s1)\<rparr>))"

definition removeCon :: "string \<Rightarrow> nat \<Rightarrow> DiscoveryServer \<Rightarrow> DiscoveryServer" where
  "removeCon conID p s =
     (let s1 = fold (\<lambda>c. removeEdsCon c conID p) (Clusters (conns s p)) s;
          s2 = (if map_of (adsClients s1) conID = None
                then s1\<lparr>warnings := warnings s1 @ [''ADS: Removing connection for non-existing node'']\<rparr>
                else s1);
          clients = AList.delete conID (adsClients s2);
          s3 = s2\<lparr>adsClients := clients, xdsClients := length clients\<rparr>
      in case modelNode (conns s3 p) of
           None \<Rightarrow> s3
         | Some node \<Rightarrow>
             (case map_of (adsSidecarIDConnectionsMap s3) (ID node) of
                None \<Rightarrow> s3
              | Some m \<Rightarrow> s3\<lparr>adsSidecarIDConnectionsMap :=
                          AList.update (ID node) (AList.delete conID m) (adsSidecarIDConnectionsMap s3)\<rparr>))"

subsection \<open>One inbound request\<close>

text \<open>The tail of the request case: registration on the first request that gets there.\<close>

definition register :: "nat \<Rightarrow> DiscoveryServer \<Rightarrow> DiscoveryServer" where
  "register p s =
     (if \<not> added (conns s p)
      then addCon (ConID (conns s p)) p (updCon p (\<lambda>c. c\<lparr>added := True\<rparr>) s)
      else s)"

definition reject :: "DiscoveryRequest \<Rightarrow> string \<Rightarrow> (string \<times> string \<Rightarrow> nat) \<Rightarrow> (string \<times> string \<Rightarrow> nat)" where
  "reject discReq nodeId m =
     (case ErrorDetail discReq of None \<Rightarrow> m | Some msg \<Rightarrow> bump m (nodeId, msg))"

definition dispatch :: "StreamEnv \<Rightarrow> nat \<Rightarrow> DiscoveryRequest \<Rightarrow> string \<Rightarrow> DiscoveryServer \<Rightarrow> DiscoveryServer outcome" where
  "dispatch env p discReq nodeId s =
     (let con = conns s p in
      if TypeUrl discReq = ClusterType then
        (if CDSWatch con then Continue (s\<lparr>cdsReject := reject discReq nodeId (cdsReject s)\<rparr>)
         else andThen (pushCds env p (updCon p (\<lambda>c. c\<lparr>CDSWatch := True\<rparr>) s))
                (\<lambda>s'. Continue (register p s')))
      else if TypeUrl discReq = ListenerType then
        (if LDSWatch con then Continue (s\<lparr>ldsReject := reject discReq nodeId (ldsReject s)\<rparr>)
         else andThen (pushLds env p (updCon p (\<lambda>c. c\<lparr>LDSWatch := True\<rparr>) s))
                (\<lambda>s'. Continue (register p s')))
      else if TypeUrl discReq = RouteType then
        (let routes = ResourceNames discReq in
         if (length routes = length (Routes con) \<or> length routes = 0) \<and> length (Routes con) > 0
         then Continue s
         else andThen (pushRoute env p (updCon p (\<lambda>c. c\<lparr>Routes := routes\<rparr>) s))
                (\<lambda>s'. Continue (register p s')))
      else if TypeUrl discReq = EndpointType then
        (let clusters = ResourceNames discReq;
             ack = (length clusters = length (Clusters con) \<or> length clusters = 0);
             s0 = (if ack then s\<lparr>edsReject := reject discReq nodeId (edsReject s)\<rparr> else s)
         in
         if ack \<and> length (Clusters con) > 0
         then Continue s0
         else
           (let s1 = updCon p (\<lambda>c. c\<lparr>Clusters := clusters\<rparr>) s0;
                s2 = fold (\<lambda>c. addEdsCon c (ConID (conns s1 p)) p) clusters s1
            in andThen (pushEds env p s2) (\<lambda>s'. Continue (register p s'))))
      else Continue (register p (s\<lparr>warnings := warnings s @ [''ADS: Unknown watched resources'']\<rparr>)))"

definition handleRequest :: "StreamEnv \<Rightarrow> nat \<Rightarrow> DiscoveryRequest \<Rightarrow> DiscoveryServer \<Rightarrow> DiscoveryServer outcome" where
  "handleRequest env p discReq s =
     (case Node discReq of
        None \<Rightarrow> Panic
      | Some node \<Rightarrow>
          if Id node = [] then Continue s
          else
            (case ParseServiceNode env (Id node) of
               Inl err \<Rightarrow> Return (Some err) s
             | Inr nt \<Rightarrow>
                 (let s1 = updCon p (\<lambda>c. c\<lparr>modelNode :=
                             Some (nt\<lparr>Metadata := ParseMetadata env (NodeMetadata node)\<rparr>)\<rparr>) s;
                      s2 = (if ConID (conns s1 p) = []
                            then (case connectionID (Id node) s1 of
                                    (cid, s') \<Rightarrow> updCon p (\<lambda>c. c\<lparr>ConID := cid\<rparr>) s')
                            else s1)
                  in dispatch env p discReq (Id node) s2)))"

subsection \<open>One push signal\<close>

definition handlePush :: "StreamEnv \<Rightarrow> nat \<Rightarrow> DiscoveryServer \<Rightarrow> DiscoveryServer outcome" where
  "handlePush env p s =
     andThen (if CDSWatch (conns s p)
              then (if modelNode (conns s p) = None then Panic else pushCds env p s)
              else Continue s)
       (\<lambda>s1. andThen (if length (Routes (conns s1 p)) > 0 then pushRoute env p s1 else Continue s1)
         (\<lambda>s2. andThen (if length (Clusters (conns s2 p)) > 0 then pushEds env p s2 else Continue s2)
           (\<lambda>s3. if LDSWatch (conns s3 p)
                  then (if modelNode (conns s3 p) = None then Panic else pushLds env p s3)
                  else Continue s3)))"

subsection \<open>The stream loop\<close>

text \<open>
  What the select of the loop receives: a request, the close of the request channel (with
  the receive error, nil on EOF or cancellation), or a push signal.
\<close>

datatype event = Request DiscoveryRequest | Closed "string option" | PushSignal

definition streamStep :: "StreamEnv \<Rightarrow> nat \<Rightarrow> event \<Rightarrow> DiscoveryServer \<Rightarrow> DiscoveryServer outcome" where
  "streamStep env p ev s =
     (case ev of
        Request discReq \<Rightarrow> handleRequest env p discReq s
      | Closed receiveError \<Rightarrow> Return receiveError s
      | PushSignal \<Rightarrow> handlePush env p s)"

text \<open>
  The deferred calls, run when the loop returns: \<^verbatim>\<open>removeCon\<close> if the connection was
  registered, then the close of the done channel.
\<close>

definition teardown :: "nat \<Rightarrow> DiscoveryServer \<Rightarrow> DiscoveryServer" where
  "teardown p s =
     updCon p (\<lambda>c. c\<lparr>doneClosed := True\<rparr>)
       (if added (conns s p) then removeCon (ConID (conns s p)) p s else s)"

text \<open>
  The loop over the events a stream receives, each with the environment of its step. The
  loop that has consumed all of them is still blocked in its select (\<^verbatim>\<open>Continue\<close>).
\<close>

fun streamLoop :: "nat \<Rightarrow> (StreamEnv \<times> event) list \<Rightarrow> DiscoveryServer \<Rightarrow> DiscoveryServer outcome" where
  "streamLoop p [] s = Continue s"
| "streamLoop p ((env, ev) # evs) s =
     (case streamStep env p ev s of
        Continue s' \<Rightarrow> streamLoop p evs s'
      | Return err s' \<Rightarrow> Return err (teardown p s')
      | Panic \<Rightarrow> Panic)"

definition StreamAggregatedResources ::
    "nat \<Rightarrow> string \<Rightarrow> time \<Rightarrow> (StreamEnv \<times> event) list \<Rightarrow> DiscoveryServer \<Rightarrow> DiscoveryServer outcome" where
  "StreamAggregatedResources p peerAddr now evs s =
     streamLoop p evs (s\<lparr>conns := (conns s)(p := newXdsConnection peerAddr now)\<rparr>)"

subsection \<open>The push coordinator\<close>

text \<open>
  What the three-way select of \<^verbatim>\<open>adsPushAll\<close> chooses for a client, and the clock
  (\<^verbatim>\<open>time.Now()\<close>) read in the chosen branch.
\<close>

datatype select_outcome = PushSent | DoneFired | TimedOut

definition pushClient :: "select_outcome \<times> time \<Rightarrow> nat \<Rightarrow> DiscoveryServer \<Rightarrow> DiscoveryServer" where
  "pushClient sel p s =
     (case sel of
        (PushSent, now) \<Rightarrow> updCon p (\<lambda>c. c\<lparr>LastPush := now, LastPushFailure := timeZero\<rparr>) s
      | (DoneFired, now) \<Rightarrow> s
      | (TimedOut, now) \<Rightarrow>
          (let s1 = s\<lparr>pushTimeouts := pushTimeouts s + 1\<rparr> in
           if IsZero (LastPushFailure (conns s1 p))
           then (updCon p (\<lambda>c. c\<lparr>LastPushFailure := now\<rparr>) s1)
                  \<lparr>warnings := warnings s1 @ [''Failed to push, client busy '' @ ConID (conns s1 p)],
                   pushErrors := bump (pushErrors s1) ''short''\<rparr>
           else if now - LastPushFailure (conns s1 p) > 10 * Second
           then s1\<lparr>warnings := warnings s1 @ [''Repeated failure to push '' @ ConID (conns s1 p)],
                   pushErrors := bump (pushErrors s1) ''long''\<rparr>
           else s1))"

text \<open>
  The loop over the snapshot of the registry: \<^verbatim>\<open>sel\<close> gives, for each connection id,
  what its select chose. The refresh of the endpoints of each EDS cluster that precedes
  the loop changes no field of this model.
\<close>

fun pushClients :: "(string \<Rightarrow> select_outcome \<times> time) \<Rightarrow> (string \<times> nat) list \<Rightarrow> DiscoveryServer \<Rightarrow> DiscoveryServer" where
  "pushClients sel [] s = s"
| "pushClients sel ((k, c) # tmpMap) s = pushClients sel tmpMap (pushClient (sel k) c s)"

definition adsPushAll :: "(string \<Rightarrow> select_outcome \<times> time) \<Rightarrow> DiscoveryServer \<Rightarrow> DiscoveryServer" where
  "adsPushAll sel s = pushClients sel (adsClients s) s"

section \<open>The service model shared by the generators (package model)\<close>

text \<open>
  \<^verbatim>\<open>model.Protocol\<close> is a string type with named constants; any other string,
  the zero value included, is \<^verbatim>\<open>ProtocolOther\<close>.
\<close>

datatype Protocol =
  ProtocolGRPC | ProtocolHTTPS | ProtocolHTTP2 | ProtocolHTTP | ProtocolTCP | ProtocolUDP
| ProtocolMongo | ProtocolRedis | ProtocolUnsupported | ProtocolOther string

datatype Resolution = ClientSideLB | DNSLB | Passthrough | OtherResolution int

record Port =
  Port_Name :: string
  Port_Port :: int
  Port_Protocol :: Protocol

record Service =
  Service_Hostname :: string
  Service_Address :: string
  Service_Ports :: "Port list"
  Service_ExternalName :: string
  Service_MeshExternal :: bool
  Service_Resolution :: Resolution

record NetworkEndpoint =
  Endpoint_Address :: string
  Endpoint_Port :: int
  Endpoint_ServicePort :: Port

record ServiceInstance =
  Instance_Endpoint :: NetworkEndpoint
  Instance_Service :: Service
  Instance_Labels :: "(string \<times> string) list"

section \<open>v1 clusters (package v1, route.go)\<close>

datatype V1ClusterType =
  ClusterTypeStatic | ClusterTypeStrictDNS | ClusterTypeSDS | ClusterTypeOriginalDST

datatype V1LbType = LbTypeRoundRobin | LbTypeOriginalDST

definition V1DefaultLbType :: V1LbType where
  "V1DefaultLbType = LbTypeRoundRobin"

record V1Cluster =
  V1_Name :: string
  V1_ServiceName :: string
  V1_ConnectTimeoutMs :: int
  V1_Type :: V1ClusterType
  V1_LbType :: V1LbType
  V1_Hosts :: "string list"
  V1_Features :: string
  V1_outbound :: bool
  V1_Hostname :: string
  V1_Port :: "Port option"
  V1_labels :: "(string \<times> string) list"

text \<open>
  \<^verbatim>\<open>fmt.Sprint(a, i)\<close> with a string and an int operand: the operands in their
  default formats, with no space between them (a space is added only between operands
  that are both not strings).
\<close>

definition Sprint_string_int :: "string \<Rightarrow> int \<Rightarrow> string" where
  "Sprint_string_int a i = a @ itoa i"

text \<open>\<^verbatim>\<open>net.JoinHostPort\<close>: a host with a colon is put in brackets.\<close>

definition JoinHostPort :: "string \<Rightarrow> string \<Rightarrow> string" where
  "JoinHostPort host port =
     (if CHR '':'' \<in> set host then ''['' @ host @ '']:'' @ port else host @ '':'' @ port)"

definition joinIPPort :: "string \<Rightarrow> int \<Rightarrow> string" where
  "joinIPPort ip port = JoinHostPort ip (Sprint_string_int ''%d'' port)"

definition MakeHTTP2 :: "V1Cluster \<Rightarrow> V1Cluster" where
  "MakeHTTP2 c = c\<lparr>V1_Features := ''http2''\<rparr>"

text \<open>
  \<^verbatim>\<open>BuildOutboundCluster\<close>. \<^verbatim>\<open>Key\<close> is \<^verbatim>\<open>Service.Key\<close> and
  \<^verbatim>\<open>TruncateClusterName\<close> the name truncation, both of other files.
\<close>

definition OutboundClusterPrefix :: string where
  "OutboundClusterPrefix = ''out.''"

definition BuildOutboundCluster ::
    "(string \<Rightarrow> Port \<Rightarrow> (string \<times> string) list \<Rightarrow> string) \<Rightarrow> (string \<Rightarrow> string) \<Rightarrow>
     string \<Rightarrow> Port \<Rightarrow> (string \<times> string) list \<Rightarrow> bool \<Rightarrow> V1Cluster" where
  "BuildOutboundCluster Key TruncateClusterName hostname port labels isExternal =
     (let key = Key hostname port labels;
          name = TruncateClusterName (OutboundClusterPrefix @ key);
          clusterType = (if isExternal then ClusterTypeStrictDNS else ClusterTypeSDS);
          hosts = (if isExternal then [''tcp://'' @ joinIPPort hostname (Port_Port port)] else []);
          cluster = \<lparr>V1_Name = name, V1_ServiceName = key, V1_ConnectTimeoutMs = 0,
                     V1_Type = clusterType, V1_LbType = V1DefaultLbType, V1_Hosts = hosts,
                     V1_Features = [], V1_outbound = (\<not> isExternal), V1_Hostname = hostname,
                     V1_Port = Some port, V1_labels = labels\<rparr>
      in if Port_Protocol port = ProtocolGRPC \<or> Port_Protocol port = ProtocolHTTP2
         then MakeHTTP2 cluster else cluster)"

section \<open>v2 clusters (package v1alpha3, cluster.go)\<close>

subsection \<open>Configuration and cluster data\<close>

record Duration =
  Seconds :: int
  Nanos :: int

record TCPSettings =
  TCP_MaxConnections :: int
  TCP_ConnectTimeout :: "Duration option"

record HTTPSettings =
  Http1MaxPendingRequests :: int
  Http2MaxRequests :: int
  MaxRequestsPerConnection :: int
  MaxRetries :: int

record ConnectionPoolSettings =
  Tcp :: "TCPSettings option"
  Http :: "HTTPSettings option"

record OutlierHTTPSettings =
  ConsecutiveErrors :: int
  Interval :: "Duration option"
  BaseEjectionTime :: "Duration option"
  MaxEjectionPercent :: int

record OutlierDetection =
  Outlier_Http :: "OutlierHTTPSettings option"

datatype SimpleLB = LB_ROUND_ROBIN | LB_LEAST_CONN | LB_RANDOM | LB_PASSTHROUGH

datatype LoadBalancerSettings = LbSimple SimpleLB | LbConsistentHash

fun GetSimple :: "LoadBalancerSettings \<Rightarrow> SimpleLB" where
  "GetSimple (LbSimple x) = x"
| "GetSimple LbConsistentHash = LB_ROUND_ROBIN"

datatype TLSMode = TLS_DISABLE | TLS_SIMPLE | TLS_MUTUAL | TLS_ISTIO_MUTUAL

record TLSSettings =
  TLS_Mode :: TLSMode
  TLS_ClientCertificate :: string
  TLS_PrivateKey :: string
  TLS_CaCertificates :: string
  TLS_SubjectAltNames :: "string list"
  TLS_Sni :: string

datatype PortSelector = PortSelector_Name string | PortSelector_Number nat | PortSelector_Unset

record PortTrafficPolicy =
  PTP_Port :: "PortSelector option"
  PTP_LoadBalancer :: "LoadBalancerSettings option"
  PTP_ConnectionPool :: "ConnectionPoolSettings option"
  PTP_OutlierDetection :: "OutlierDetection option"
  PTP_Tls :: "TLSSettings option"

record TrafficPolicy =
  TP_LoadBalancer :: "LoadBalancerSettings option"
  TP_ConnectionPool :: "ConnectionPoolSettings option"
  TP_OutlierDetection :: "OutlierDetection option"
  TP_Tls :: "TLSSettings option"
  TP_PortLevelSettings :: "PortTrafficPolicy list"

record Subset =
  Subset_Name :: string
  Subset_TrafficPolicy :: "TrafficPolicy option"

record DestinationRule =
  DR_TrafficPolicy :: "TrafficPolicy option"
  DR_Subsets :: "Subset list"

datatype AuthPolicy = MeshConfig_NONE | MeshConfig_MUTUAL_TLS

text \<open>
  The mesh configuration. Its two durations are pointers in the source; every mesh
  configuration an environment holds has them set, so they are values here.
\<close>

record MeshConfig =
  Mesh_ConnectTimeout :: Duration
  Mesh_AuthPolicy :: AuthPolicy
  Mesh_ProxyListenPort :: int
  Mesh_ProxyHttpPort :: int
  Mesh_RdsRefreshDelay :: Duration
  Mesh_AccessLogFile :: string
  Mesh_EnableTracing :: bool

text \<open>
  \<^verbatim>\<open>model.Environment\<close>: the registry and the configuration store, read-only. A
  call that can fail returns its error on the left.
\<close>

record Environment =
  Services :: "string + Service list"
  GetProxyServiceInstances :: "Proxy \<Rightarrow> string + ServiceInstance list"
  ManagementPorts :: "string \<Rightarrow> Port list"
  GetDestinationRule :: "string \<Rightarrow> DestinationRule option"
  InstancesByPort :: "string \<Rightarrow> int \<Rightarrow> string + ServiceInstance list"
  GetIstioServiceAccounts :: "string \<Rightarrow> string list \<Rightarrow> string list"
  Mesh :: MeshConfig

datatype DiscoveryType =
  Cluster_STATIC | Cluster_STRICT_DNS | Cluster_LOGICAL_DNS | Cluster_EDS | Cluster_ORIGINAL_DST

datatype LbPolicy =
  Cluster_ROUND_ROBIN | Cluster_LEAST_REQUEST | Cluster_RING_HASH | Cluster_RANDOM
| Cluster_ORIGINAL_DST_LB

datatype DnsLookupFamily = Cluster_AUTO | Cluster_V4_ONLY | Cluster_V6_ONLY

type_synonym Address = "string \<times> nat"

record Thresholds =
  Thr_MaxConnections :: "nat option"
  Thr_MaxPendingRequests :: "nat option"
  Thr_MaxRequests :: "nat option"
  Thr_MaxRetries :: "nat option"

record ClusterOutlierDetection =
  CO_Consecutive_5Xx :: "nat option"
  CO_Interval :: "Duration option"
  CO_BaseEjectionTime :: "Duration option"
  CO_MaxEjectionPercent :: "nat option"

record UpstreamTlsContext =
  UTC_TlsCertificates :: "(string \<times> string) list"
  UTC_ValidationContext :: "(string option \<times> string list) option"
  UTC_AlpnProtocols :: "string list"
  UTC_Sni :: string

record Cluster =
  Cluster_Name :: string
  Cluster_Type :: DiscoveryType
  Cluster_Hosts :: "Address list"
  Cluster_ConnectTimeout :: int
  Cluster_LbPolicy :: LbPolicy
  Cluster_DnsLookupFamily :: DnsLookupFamily
  Cluster_EdsClusterConfig :: "string option"
  Cluster_Http2ProtocolOptions :: "nat option"
  Cluster_MaxRequestsPerConnection :: "nat option"
  Cluster_CircuitBreakers :: "Thresholds list"
  Cluster_OutlierDetection :: "ClusterOutlierDetection option"
  Cluster_TlsContext :: "UpstreamTlsContext option"

text \<open>
  The functions of the model, util and plugin packages that the generators call and that
  are defined in other files: parameters of the generators.
\<close>

datatype ListenerProtocol = ListenerTypeUnknown | ListenerTypeTCP | ListenerTypeHTTP

record Deps =
  GogoDurationToDuration :: "Duration option \<Rightarrow> int"
  IsHTTP :: "Protocol \<Rightarrow> bool"
  IsHTTP2 :: "Protocol \<Rightarrow> bool"
  IsTCP :: "Protocol \<Rightarrow> bool"
  ModelProtocolToListenerType :: "Protocol \<Rightarrow> ListenerProtocol"
  GetServiceAddressForProxy :: "Service \<Rightarrow> Proxy \<Rightarrow> string"

definition uint32 :: "int \<Rightarrow> nat" where
  "uint32 i = nat (i mod 4294967296)"

definition BuildAddress :: "string \<Rightarrow> nat \<Rightarrow> Address" where
  "BuildAddress ip port = (ip, port)"

text \<open>
  Modelled from the spec: \<^verbatim>\<open>model.BuildSubsetKey\<close> is defined in the model package.
  The spec gives the cluster name as the "canonical encoding
  \<^verbatim>\<open><direction>|<port>|<subset>|<host>\<close>".
\<close>

datatype TrafficDirection = TrafficDirectionInbound | TrafficDirectionOutbound

definition BuildSubsetKey :: "TrafficDirection \<Rightarrow> string \<Rightarrow> string \<Rightarrow> int \<Rightarrow> string" where
  "BuildSubsetKey direction subsetName hostname port =
     (case direction of TrafficDirectionInbound \<Rightarrow> ''inbound'' | TrafficDirectionOutbound \<Rightarrow> ''outbound'')
     @ ''|'' @ itoa port @ ''|'' @ subsetName @ ''|'' @ hostname"

definition ManagementClusterHostname :: string where
  "ManagementClusterHostname = ''mgmtCluster''"

definition defaultClusterConnectTimeout :: int where
  "defaultClusterConnectTimeout = 5 * Second"

definition BlackHoleCluster :: string where
  "BlackHoleCluster = ''BlackHoleCluster''"

definition emptyCluster :: Cluster where
  "emptyCluster =
     \<lparr>Cluster_Name = [], Cluster_Type = Cluster_STATIC, Cluster_Hosts = [],
      Cluster_ConnectTimeout = 0, Cluster_LbPolicy = Cluster_ROUND_ROBIN,
      Cluster_DnsLookupFamily = Cluster_AUTO, Cluster_EdsClusterConfig = None,
      Cluster_Http2ProtocolOptions = None, Cluster_MaxRequestsPerConnection = None,
      Cluster_CircuitBreakers = [], Cluster_OutlierDetection = None,
      Cluster_TlsContext = None\<rparr>"

subsection \<open>Traffic policy\<close>

definition positive :: "int \<Rightarrow> nat option" where
  "positive n = (if n > 0 then Some (uint32 n) else None)"

definition applyConnectionPool :: "Deps \<Rightarrow> ConnectionPoolSettings option \<Rightarrow> Cluster \<Rightarrow> Cluster" where
  "applyConnectionPool d settings cluster =
     (case settings of
        None \<Rightarrow> cluster
      | Some st \<Rightarrow>
          (let threshold0 = \<lparr>Thr_MaxConnections = None, Thr_MaxPendingRequests = None,
                             Thr_MaxRequests = None, Thr_MaxRetries = None\<rparr>;
               (threshold1, cluster1) =
                 (case Http st of
                    None \<Rightarrow> (threshold0, cluster)
                  | Some h \<Rightarrow>
                      (threshold0\<lparr>Thr_MaxRequests := positive (Http2MaxRequests h),
                                  Thr_MaxPendingRequests := positive (Http1MaxPendingRequests h),
                                  Thr_MaxRetries := positive (MaxRetries h)\<rparr>,
                       if MaxRequestsPerConnection h > 0
                       then cluster\<lparr>Cluster_MaxRequestsPerConnection :=
                                      Some (uint32 (MaxRequestsPerConnection h))\<rparr>
                       else cluster));
               (threshold2, cluster2) =
                 (case Tcp st of
                    None \<Rightarrow> (threshold1, cluster1)
                  | Some t \<Rightarrow>
                      (threshold1\<lparr>Thr_MaxConnections := positive (TCP_MaxConnections t)\<rparr>,
                       case TCP_ConnectTimeout t of
                         None \<Rightarrow> cluster1
                       | Some ct \<Rightarrow> cluster1\<lparr>Cluster_ConnectTimeout :=
                                      GogoDurationToDuration d (Some ct)\<rparr>))
           in cluster2\<lparr>Cluster_CircuitBreakers := [threshold2]\<rparr>))"

definition applyOutlierDetection :: "OutlierDetection option \<Rightarrow> Cluster \<Rightarrow> Cluster" where
  "applyOutlierDetection outlier cluster =
     (case outlier of
        None \<Rightarrow> cluster
      | Some ol \<Rightarrow>
          (case Outlier_Http ol of
             None \<Rightarrow> cluster
           | Some h \<Rightarrow>
               cluster\<lparr>Cluster_OutlierDetection := Some
                 \<lparr>CO_Consecutive_5Xx = positive (ConsecutiveErrors h),
                  CO_Interval = Interval h,
                  CO_BaseEjectionTime = BaseEjectionTime h,
                  CO_MaxEjectionPercent = positive (MaxEjectionPercent h)\<rparr>\<rparr>))"

definition applyLoadBalancer :: "LoadBalancerSettings option \<Rightarrow> Cluster \<Rightarrow> Cluster" where
  "applyLoadBalancer lb cluster =
     (case lb of
        None \<Rightarrow> cluster
      | Some l \<Rightarrow>
          (case GetSimple l of
             LB_LEAST_CONN \<Rightarrow> cluster\<lparr>Cluster_LbPolicy := Cluster_LEAST_REQUEST\<rparr>
           | LB_RANDOM \<Rightarrow> cluster\<lparr>Cluster_LbPolicy := Cluster_RANDOM\<rparr>
           | LB_ROUND_ROBIN \<Rightarrow> cluster\<lparr>Cluster_LbPolicy := Cluster_ROUND_ROBIN\<rparr>
           | LB_PASSTHROUGH \<Rightarrow> cluster\<lparr>Cluster_LbPolicy := Cluster_ORIGINAL_DST_LB,
                                        Cluster_Type := Cluster_ORIGINAL_DST\<rparr>))"

definition ALPNH2Only :: "string list" where
  "ALPNH2Only = [''h2'']"

definition ALPNInMeshH2 :: "string list" where
  "ALPNInMeshH2 = [''istio'', ''h2'']"

definition ALPNInMesh :: "string list" where
  "ALPNInMesh = [''istio'']"

definition applyUpstreamTLSSettings :: "TLSSettings option \<Rightarrow> Cluster \<Rightarrow> Cluster" where
  "applyUpstreamTLSSettings tls cluster =
     (case tls of
        None \<Rightarrow> cluster
      | Some t \<Rightarrow>
          (let trustedCa = (if TLS_CaCertificates t \<noteq> [] then Some (TLS_CaCertificates t) else None);
               certValidationContext =
                 (if trustedCa \<noteq> None \<or> length (TLS_SubjectAltNames t) > 0
                  then Some (trustedCa, TLS_SubjectAltNames t) else None)
           in case TLS_Mode t of
                TLS_DISABLE \<Rightarrow> cluster\<lparr>Cluster_TlsContext := None\<rparr>
              | TLS_SIMPLE \<Rightarrow>
                  cluster\<lparr>Cluster_TlsContext := Some
                    \<lparr>UTC_TlsCertificates = [], UTC_ValidationContext = certValidationContext,
                     UTC_AlpnProtocols =
                       (if Cluster_Http2ProtocolOptions cluster \<noteq> None then ALPNH2Only else []),
                     UTC_Sni = TLS_Sni t\<rparr>\<rparr>
              | _ \<Rightarrow>
                  cluster\<lparr>Cluster_TlsContext := Some
                    \<lparr>UTC_TlsCertificates = [(TLS_ClientCertificate t, TLS_PrivateKey t)],
                     UTC_ValidationContext = certValidationContext,
                     UTC_AlpnProtocols =
                       (if Cluster_Http2ProtocolOptions cluster \<noteq> None then ALPNInMeshH2 else ALPNInMesh),
                     UTC_Sni = TLS_Sni t\<rparr>\<rparr>))"

definition portMatches :: "Port \<Rightarrow> PortTrafficPolicy \<Rightarrow> bool" where
  "portMatches port p =
     (case PTP_Port p of
        Some (PortSelector_Name n) \<Rightarrow> Port_Name port = n
      | Some (PortSelector_Number n) \<Rightarrow> uint32 (Port_Port port) = n
      | _ \<Rightarrow> False)"

definition applyTrafficPolicy :: "Deps \<Rightarrow> TrafficPolicy option \<Rightarrow> Port option \<Rightarrow> Cluster \<Rightarrow> Cluster" where
  "applyTrafficPolicy d policy port cluster =
     (case policy of
        None \<Rightarrow> cluster
      | Some pol \<Rightarrow>
          (let chosen =
                 (case port of
                    None \<Rightarrow> None
                  | Some pt \<Rightarrow> List.find (portMatches pt) (TP_PortLevelSettings pol));
               (connectionPool, outlierDetection, loadBalancer, tls) =
                 (case chosen of
                    None \<Rightarrow> (TP_ConnectionPool pol, TP_OutlierDetection pol, TP_LoadBalancer pol, TP_Tls pol)
                  | Some p \<Rightarrow> (PTP_ConnectionPool p, PTP_OutlierDetection p, PTP_LoadBalancer p, PTP_Tls p))
           in applyUpstreamTLSSettings tls
                (applyLoadBalancer loadBalancer
                  (applyOutlierDetection outlierDetection
                    (applyConnectionPool d connectionPool cluster)))))"

definition AuthCertsPath :: string where
  "AuthCertsPath = ''/etc/certs/''"

definition buildIstioMutualTLS :: "string list \<Rightarrow> TLSSettings" where
  "buildIstioMutualTLS upstreamServiceAccount =
     \<lparr>TLS_Mode = TLS_ISTIO_MUTUAL,
      TLS_ClientCertificate = AuthCertsPath @ ''cert-chain.pem'',
      TLS_PrivateKey = AuthCertsPath @ ''key.pem'',
      TLS_CaCertificates = AuthCertsPath @ ''root-cert.pem'',
      TLS_SubjectAltNames = upstreamServiceAccount,
      TLS_Sni = []\<rparr>"

definition convertTls :: "string list \<Rightarrow> TLSSettings option \<Rightarrow> TLSSettings option" where
  "convertTls upstreamServiceAccount tls =
     (case tls of
        None \<Rightarrow> None
      | Some t \<Rightarrow> if TLS_Mode t = TLS_ISTIO_MUTUAL
                  then Some (buildIstioMutualTLS upstreamServiceAccount) else Some t)"

definition convertIstioMutual :: "string list \<Rightarrow> DestinationRule \<Rightarrow> DestinationRule" where
  "convertIstioMutual upstreamServiceAccount destinationRule =
     destinationRule
       \<lparr>DR_TrafficPolicy :=
          map_option (\<lambda>tp. tp\<lparr>TP_Tls := convertTls upstreamServiceAccount (TP_Tls tp),
                              TP_PortLevelSettings :=
                                map (\<lambda>portTLS. portTLS\<lparr>PTP_Tls := convertTls upstreamServiceAccount (PTP_Tls portTLS)\<rparr>)
                                  (TP_PortLevelSettings tp)\<rparr>)
            (DR_TrafficPolicy destinationRule),
        DR_Subsets :=
          map (\<lambda>subset'. subset'\<lparr>Subset_TrafficPolicy :=
                 map_option (\<lambda>tp. tp\<lparr>TP_Tls := convertTls upstreamServiceAccount (TP_Tls tp)\<rparr>)
                   (Subset_TrafficPolicy subset')\<rparr>)
            (DR_Subsets destinationRule)\<rparr>"

subsection \<open>Building clusters\<close>

definition convertResolution :: "Resolution \<Rightarrow> DiscoveryType" where
  "convertResolution resolution =
     (case resolution of
        ClientSideLB \<Rightarrow> Cluster_EDS
      | DNSLB \<Rightarrow> Cluster_STRICT_DNS
      | Passthrough \<Rightarrow> Cluster_ORIGINAL_DST
      | _ \<Rightarrow> Cluster_EDS)"

definition buildDefaultTrafficPolicy :: "Environment \<Rightarrow> DiscoveryType \<Rightarrow> TrafficPolicy" where
  "buildDefaultTrafficPolicy env discoveryType =
     \<lparr>TP_LoadBalancer = Some (LbSimple (if discoveryType = Cluster_ORIGINAL_DST
                                         then LB_PASSTHROUGH else LB_ROUND_ROBIN)),
      TP_ConnectionPool = Some
        \<lparr>Tcp = Some \<lparr>TCP_MaxConnections = 0,
                      TCP_ConnectTimeout = Some
                        \<lparr>Seconds = Seconds (Mesh_ConnectTimeout (Mesh env)),
                         Nanos = Nanos (Mesh_ConnectTimeout (Mesh env))\<rparr>\<rparr>,
         Http = None\<rparr>,
      TP_OutlierDetection = None,
      TP_Tls = None,
      TP_PortLevelSettings = []\<rparr>"

definition buildDefaultCluster :: "Deps \<Rightarrow> Environment \<Rightarrow> string \<Rightarrow> DiscoveryType \<Rightarrow> Address list \<Rightarrow> Cluster" where
  "buildDefaultCluster d env name discoveryType hosts =
     (let cluster = emptyCluster\<lparr>Cluster_Name := name, Cluster_Type := discoveryType,
                                 Cluster_Hosts := hosts\<rparr>;
          cluster1 = (if discoveryType = Cluster_STRICT_DNS \<or> discoveryType = Cluster_LOGICAL_DNS
                      then cluster\<lparr>Cluster_DnsLookupFamily := Cluster_V4_ONLY\<rparr> else cluster)
      in applyTrafficPolicy d (Some (buildDefaultTrafficPolicy env discoveryType)) None cluster1)"

definition buildBlackHoleCluster :: Cluster where
  "buildBlackHoleCluster =
     emptyCluster\<lparr>Cluster_Name := BlackHoleCluster, Cluster_Type := Cluster_STATIC,
                  Cluster_ConnectTimeout := defaultClusterConnectTimeout,
                  Cluster_LbPolicy := Cluster_ROUND_ROBIN\<rparr>"

definition setUpstreamProtocol :: "Deps \<Rightarrow> Port \<Rightarrow> Cluster \<Rightarrow> Cluster" where
  "setUpstreamProtocol d port cluster =
     (if IsHTTP2 d (Port_Protocol port)
      then cluster\<lparr>Cluster_Http2ProtocolOptions := Some 1073741824\<rparr> else cluster)"

definition updateEds :: "Cluster \<Rightarrow> Cluster" where
  "updateEds cluster =
     (if Cluster_Type cluster \<noteq> Cluster_EDS then cluster
      else cluster\<lparr>Cluster_EdsClusterConfig := Some (Cluster_Name cluster)\<rparr>)"

definition buildClusterHosts :: "Environment \<Rightarrow> Service \<Rightarrow> int \<Rightarrow> Address list" where
  "buildClusterHosts env service port =
     (if Service_Resolution service \<noteq> DNSLB then []
      else case InstancesByPort env (Service_Hostname service) port of
             Inl err \<Rightarrow> []
           | Inr instances \<Rightarrow>
               map (\<lambda>instance. BuildAddress (Endpoint_Address (Instance_Endpoint instance))
                                 (uint32 (Endpoint_Port (Instance_Endpoint instance))))
                 instances)"

section \<open>Listener data and the plugin interface (package v1alpha3, listener file)\<close>

datatype TraceOperation = EGRESS | INGRESS

datatype RouteSpecifier = Rds string int | RouteConfig RouteConfiguration

text \<open>
  The HTTP connection manager, with the fields the listener file sets. An access log entry
  is its name and the path of its file configuration (\<^verbatim>\<open>None\<close> for a nil
  \<^verbatim>\<open>Config\<close>); HTTP filters are their names.
\<close>

record HttpConnectionManager =
  HCM_CodecAuto :: bool
  HCM_AccessLog :: "(string \<times> string option) list"
  HCM_HttpFilters :: "string list"
  HCM_StatPrefix :: string
  HCM_UseRemoteAddress :: "bool option"
  HCM_RouteSpecifier :: "RouteSpecifier option"
  HCM_Tracing :: "TraceOperation option"
  HCM_GenerateRequestId :: "bool option"
  HCM_AllowAbsoluteUrl :: "bool option"

datatype Filter =
  NetworkFilter string
| TcpProxyFilter string string
| HttpConnectionManagerFilter HttpConnectionManager

record FilterChain =
  FC_SniDomains :: "string list option"
  FC_TlsContext :: "string option"
  FC_Filters :: "Filter list"

record Listener =
  L_Name :: string
  L_Address :: Address
  L_FilterChains :: "FilterChain list"
  L_BindToPortFalse :: bool
  L_Transparent :: "bool option"
  L_UseOriginalDst :: "bool option"

record httpListenerOpts =
  HLO_routeConfig :: RouteConfiguration
  HLO_rds :: string
  HLO_useRemoteAddress :: bool
  HLO_direction :: TraceOperation
  HLO_connectionManager :: "HttpConnectionManager option"

record filterChainOpts =
  FCO_sniHosts :: "string list"
  FCO_tlsContext :: "string option"
  FCO_httpOpts :: "httpListenerOpts option"
  FCO_networkFilters :: "Filter list"

text \<open>
  \<^verbatim>\<open>buildListenerOpts\<close>; its \<^verbatim>\<open>env\<close>, \<^verbatim>\<open>proxy\<close> and
  \<^verbatim>\<open>proxyInstances\<close> are arguments of the functions that read them.
\<close>

record buildListenerOpts =
  LO_ip :: string
  LO_port :: int
  LO_protocol :: Protocol
  LO_bindToPort :: bool
  LO_filterChainOpts :: "filterChainOpts list"

record PluginFilterChain =
  PFC_HTTP :: "string list"
  PFC_TCP :: "Filter list"

record MutableObjects =
  MO_Listener :: Listener
  MO_FilterChains :: "PluginFilterChain list"

record InputParams =
  IP_ListenerType :: ListenerProtocol
  IP_Node :: Proxy
  IP_ProxyInstances :: "ServiceInstance list"
  IP_ServiceInstance :: "ServiceInstance option"
  IP_Service :: "Service option"

text \<open>
  A plugin: its four hooks. A listener hook returns its error (nil as \<^verbatim>\<open>None\<close>) and
  the mutable objects as it leaves them; a cluster hook returns the cluster as it leaves it.
\<close>

record Plugin =
  OnOutboundListener :: "Environment \<Rightarrow> InputParams \<Rightarrow> MutableObjects \<Rightarrow> string option \<times> MutableObjects"
  OnInboundListener :: "Environment \<Rightarrow> InputParams \<Rightarrow> MutableObjects \<Rightarrow> string option \<times> MutableObjects"
  OnOutboundCluster :: "Environment \<Rightarrow> Proxy \<Rightarrow> Service \<Rightarrow> Port \<Rightarrow> Cluster \<Rightarrow> Cluster"
  OnInboundCluster :: "Environment \<Rightarrow> Proxy \<Rightarrow> Service \<Rightarrow> Port \<Rightarrow> Cluster \<Rightarrow> Cluster"

text \<open>
  The functions of other files that the listener file calls: the route generators, the
  network filter builders, the generated validation of a listener, and the gateway
  listeners.
\<close>

record ListenerDeps =
  BuildSidecarOutboundHTTPRouteConfig ::
    "Environment \<Rightarrow> Proxy \<Rightarrow> ServiceInstance list \<Rightarrow> Service list \<Rightarrow> string \<Rightarrow> RouteConfiguration"
  buildSidecarInboundHTTPRouteConfig :: "Environment \<Rightarrow> Proxy \<Rightarrow> ServiceInstance \<Rightarrow> RouteConfiguration"
  buildInboundNetworkFilters :: "ServiceInstance \<Rightarrow> Filter list"
  buildOutboundNetworkFilters :: "string \<Rightarrow> string list \<Rightarrow> Port \<Rightarrow> Filter list"
  Validate :: "Listener \<Rightarrow> string option"
  buildGatewayListeners :: "Environment \<Rightarrow> Proxy \<Rightarrow> string + Listener list"

section \<open>Building clusters (cluster.go, continued)\<close>

definition callOutboundCluster :: "Plugin list \<Rightarrow> Environment \<Rightarrow> Proxy \<Rightarrow> Service \<Rightarrow> Port \<Rightarrow> Cluster \<Rightarrow> Cluster" where
  "callOutboundCluster plugins env proxy service port cluster =
     fold (\<lambda>p. OnOutboundCluster p env proxy service port) plugins cluster"

definition callInboundCluster :: "Plugin list \<Rightarrow> Environment \<Rightarrow> Proxy \<Rightarrow> Service \<Rightarrow> Port \<Rightarrow> Cluster \<Rightarrow> Cluster" where
  "callInboundCluster plugins env proxy service port cluster =
     fold (\<lambda>p. OnInboundCluster p env proxy service port) plugins cluster"

definition buildSubsetCluster ::
    "Deps \<Rightarrow> Plugin list \<Rightarrow> Environment \<Rightarrow> Proxy \<Rightarrow> Service \<Rightarrow> Port \<Rightarrow> Address list \<Rightarrow>
     DestinationRule \<Rightarrow> Subset \<Rightarrow> Cluster" where
  "buildSubsetCluster d plugins env proxy service port hosts destinationRule subset' =
     (let subsetClusterName = BuildSubsetKey TrafficDirectionOutbound (Subset_Name subset')
                                (Service_Hostname service) (Port_Port port);
          subsetCluster = buildDefaultCluster d env subsetClusterName
                            (convertResolution (Service_Resolution service)) hosts
      in callOutboundCluster plugins env proxy service port
           (applyTrafficPolicy d (Subset_TrafficPolicy subset') (Some port)
             (applyTrafficPolicy d (DR_TrafficPolicy destinationRule) (Some port)
               (setUpstreamProtocol d port (updateEds subsetCluster)))))"

text \<open>
  The loop over the ports of one service. The destination rule is one object for all of
  them, converted in place by \<^verbatim>\<open>convertIstioMutual\<close> at each port, so it is threaded
  through the loop. The default cluster is appended before it is completed through its
  pointer; the list holds it as completed, in the place where it was appended.
\<close>

fun buildOutboundPortClusters ::
    "Deps \<Rightarrow> Plugin list \<Rightarrow> Environment \<Rightarrow> Proxy \<Rightarrow> Service \<Rightarrow> Port list \<Rightarrow>
     DestinationRule option \<Rightarrow> Cluster list" where
  "buildOutboundPortClusters d plugins env proxy service [] config = []"
| "buildOutboundPortClusters d plugins env proxy service (port # ports) config =
     (let hosts = buildClusterHosts env service (Port_Port port);
          clusterName = BuildSubsetKey TrafficDirectionOutbound [] (Service_Hostname service) (Port_Port port);
          upstreamServiceAccounts = GetIstioServiceAccounts env (Service_Hostname service) [Port_Name port];
          defaultCluster = setUpstreamProtocol d port (updateEds
                             (buildDefaultCluster d env clusterName
                               (convertResolution (Service_Resolution service)) hosts))
      in case config of
           Some rule \<Rightarrow>
             (let destinationRule = convertIstioMutual upstreamServiceAccounts rule;
                  defaultCluster1 = applyTrafficPolicy d (DR_TrafficPolicy destinationRule) (Some port) defaultCluster
              in callOutboundCluster plugins env proxy service port defaultCluster1
                 # map (buildSubsetCluster d plugins env proxy service port hosts destinationRule)
                     (DR_Subsets destinationRule)
                 @ buildOutboundPortClusters d plugins env proxy service ports (Some destinationRule))
         | None \<Rightarrow>
             (let defaultCluster1 =
                    (if Mesh_AuthPolicy (Mesh env) = MeshConfig_MUTUAL_TLS \<and> \<not> Service_MeshExternal service
                     then applyUpstreamTLSSettings (Some (buildIstioMutualTLS upstreamServiceAccounts)) defaultCluster
                     else defaultCluster)
              in callOutboundCluster plugins env proxy service port defaultCluster1
                 # buildOutboundPortClusters d plugins env proxy service ports None))"

definition buildOutboundClusters :: "Deps \<Rightarrow> Plugin list \<Rightarrow> Environment \<Rightarrow> Proxy \<Rightarrow> Service list \<Rightarrow> Cluster list" where
  "buildOutboundClusters d plugins env proxy services =
     concat (map (\<lambda>service. buildOutboundPortClusters d plugins env proxy service (Service_Ports service)
                               (GetDestinationRule env (Service_Hostname service)))
               services)"

definition buildInboundCluster :: "Deps \<Rightarrow> Plugin list \<Rightarrow> Environment \<Rightarrow> Proxy \<Rightarrow> ServiceInstance \<Rightarrow> Cluster" where
  "buildInboundCluster d plugins env proxy instance =
     (let servicePort = Endpoint_ServicePort (Instance_Endpoint instance);
          clusterName = BuildSubsetKey TrafficDirectionInbound []
                          (Service_Hostname (Instance_Service instance)) (Port_Port servicePort);
          address = BuildAddress ''::1'' (uint32 (Endpoint_Port (Instance_Endpoint instance)));
          localCluster = callInboundCluster plugins env proxy (Instance_Service instance) servicePort
                           (setUpstreamProtocol d servicePort
                             (buildDefaultCluster d env clusterName Cluster_STATIC [address]))
      in case GetDestinationRule env (Service_Hostname (Instance_Service instance)) of
           None \<Rightarrow> localCluster
         | Some destinationRule \<Rightarrow>
             (case DR_TrafficPolicy destinationRule of
                None \<Rightarrow> localCluster
              | Some tp \<Rightarrow> applyConnectionPool d (TP_ConnectionPool tp) localCluster))"

definition buildMgmtCluster :: "Deps \<Rightarrow> Environment \<Rightarrow> Port \<Rightarrow> Cluster" where
  "buildMgmtCluster d env port =
     (let clusterName = BuildSubsetKey TrafficDirectionInbound [] ManagementClusterHostname (Port_Port port);
          address = BuildAddress ''::1'' (uint32 (Port_Port port))
      in setUpstreamProtocol d port (buildDefaultCluster d env clusterName Cluster_STATIC [address]))"

definition buildInboundClusters ::
    "Deps \<Rightarrow> Plugin list \<Rightarrow> Environment \<Rightarrow> Proxy \<Rightarrow> ServiceInstance list \<Rightarrow> Port list \<Rightarrow> Cluster list" where
  "buildInboundClusters d plugins env proxy instances managementPorts =
     map (buildInboundCluster d plugins env proxy) instances @ map (buildMgmtCluster d env) managementPorts"

text \<open>The body of the loop of \<^verbatim>\<open>BuildClusters\<close> over the outbound clusters.\<close>

definition ensureConnectTimeout :: "Cluster \<Rightarrow> Cluster" where
  "ensureConnectTimeout c =
     (if Cluster_ConnectTimeout c = 0
      then c\<lparr>Cluster_ConnectTimeout := defaultClusterConnectTimeout\<rparr> else c)"

definition BuildClusters :: "Deps \<Rightarrow> Plugin list \<Rightarrow> Environment \<Rightarrow> Proxy \<Rightarrow> string + Cluster list" where
  "BuildClusters d plugins env proxy =
     (case Services env of
        Inl err \<Rightarrow> Inl err
      | Inr services \<Rightarrow>
          (let clusters = map ensureConnectTimeout (buildOutboundClusters d plugins env proxy services)
           in if Proxy_Type proxy = Sidecar
              then (case GetProxyServiceInstances env proxy of
                      Inl err \<Rightarrow> Inl err
                    | Inr instances \<Rightarrow>
                        Inr (clusters
                             @ buildInboundClusters d plugins env proxy instances
                                 (ManagementPorts env (IPAddress proxy))
                             @ [buildBlackHoleCluster]))
              else Inr (clusters @ [buildBlackHoleCluster])))"

section \<open>Building listeners (package v1alpha3, listener file)\<close>

definition fileAccessLog :: string where
  "fileAccessLog = ''envoy.file_access_log''"

definition envoyHTTPConnectionManager :: string where
  "envoyHTTPConnectionManager = ''envoy.http_connection_manager''"

definition HTTPStatPrefix :: string where
  "HTTPStatPrefix = ''http''"

definition RDSName :: string where
  "RDSName = ''rds''"

definition RDSHttpProxy :: string where
  "RDSHttpProxy = ''http_proxy''"

definition VirtualListenerName :: string where
  "VirtualListenerName = ''virtual''"

definition WildcardAddress :: string where
  "WildcardAddress = ''::0''"

definition LocalhostAddress :: string where
  "LocalhostAddress = ''::1''"

text \<open>
  The result of a generator that can fail or panic (an index out of range in
  \<^verbatim>\<open>marshalFilters\<close>, when a plugin changes the number of filter chains).
\<close>

datatype 'a result = Ok 'a | Error string | Panicked

fun foldResult :: "('a \<Rightarrow> 's \<Rightarrow> 's result) \<Rightarrow> 'a list \<Rightarrow> 's \<Rightarrow> 's result" where
  "foldResult f [] s = Ok s"
| "foldResult f (x # xs) s =
     (case f x s of
        Ok s' \<Rightarrow> foldResult f xs s'
      | Error err \<Rightarrow> Error err
      | Panicked \<Rightarrow> Panicked)"

text \<open>
  The two gauges of the listener file and the warnings it logs.
\<close>

record GenState =
  conflictingOutbound :: nat
  invalidOutboundListeners :: nat
  genLog :: "string list"

definition warn :: "string \<Rightarrow> GenState \<Rightarrow> GenState" where
  "warn msg g = g\<lparr>genLog := genLog g @ [msg]\<rparr>"

definition emptyConnectionManager :: HttpConnectionManager where
  "emptyConnectionManager =
     \<lparr>HCM_CodecAuto = False, HCM_AccessLog = [], HCM_HttpFilters = [], HCM_StatPrefix = [],
      HCM_UseRemoteAddress = None, HCM_RouteSpecifier = None, HCM_Tracing = None,
      HCM_GenerateRequestId = None, HCM_AllowAbsoluteUrl = None\<rparr>"

definition buildHTTPConnectionManager :: "MeshConfig \<Rightarrow> httpListenerOpts \<Rightarrow> string list \<Rightarrow> HttpConnectionManager" where
  "buildHTTPConnectionManager mesh httpOpts httpFilters =
     (let filters = httpFilters @ [''envoy.cors'', ''envoy.fault'', ''envoy.router''];
          refresh0 = Seconds (Mesh_RdsRefreshDelay mesh) * Second;
          refresh = (if refresh0 = 0 then 5 * Second else refresh0);
          cm0 = (case HLO_connectionManager httpOpts of None \<Rightarrow> emptyConnectionManager | Some cm \<Rightarrow> cm);
          cm1 = cm0\<lparr>HCM_CodecAuto := True, HCM_AccessLog := [([], None)], HCM_HttpFilters := filters,
                    HCM_StatPrefix := HTTPStatPrefix,
                    HCM_UseRemoteAddress := Some (HLO_useRemoteAddress httpOpts)\<rparr>;
          cm2 = (if HLO_rds httpOpts \<noteq> []
                 then cm1\<lparr>HCM_RouteSpecifier := Some (Rds (HLO_rds httpOpts) refresh)\<rparr>
                 else cm1\<lparr>HCM_RouteSpecifier := Some (RouteConfig (HLO_routeConfig httpOpts))\<rparr>);
          cm3 = (if Mesh_AccessLogFile mesh \<noteq> []
                 then cm2\<lparr>HCM_AccessLog := [(fileAccessLog, Some (Mesh_AccessLogFile mesh))]\<rparr>
                 else cm2)
      in if Mesh_EnableTracing mesh
         then cm3\<lparr>HCM_Tracing := Some (HLO_direction httpOpts), HCM_GenerateRequestId := Some True\<rparr>
         else cm3)"

definition buildListener :: "buildListenerOpts \<Rightarrow> Listener" where
  "buildListener opts =
     \<lparr>L_Name = LO_ip opts @ ''_'' @ itoa (LO_port opts),
      L_Address = BuildAddress (LO_ip opts) (uint32 (LO_port opts)),
      L_FilterChains =
        map (\<lambda>chain.
               \<lparr>FC_SniDomains =
                  (if length (FCO_sniHosts chain) > 0 \<and> ''*'' \<notin> set (FCO_sniHosts chain)
                   then Some (FCO_sniHosts chain) else None),
                FC_TlsContext = FCO_tlsContext chain,
                FC_Filters = []\<rparr>)
          (LO_filterChainOpts opts),
      L_BindToPortFalse = (\<not> LO_bindToPort opts),
      L_Transparent = None,
      L_UseOriginalDst = None\<rparr>"

text \<open>
  The loop of \<^verbatim>\<open>marshalFilters\<close>, from index \<^verbatim>\<open>i\<close> on: the options and the
  filter chains of the listener are read at the index of the plugin chain.
\<close>

fun marshalChains ::
    "MeshConfig option \<Rightarrow> filterChainOpts list \<Rightarrow> nat \<Rightarrow> PluginFilterChain list \<Rightarrow> FilterChain list \<Rightarrow>
     FilterChain list result" where
  "marshalChains mesh opts i [] fcs = Ok fcs"
| "marshalChains mesh opts i (pchain # pchains) fcs =
     (if i \<ge> length opts then Panicked
      else
        (let opt = opts ! i in
         if (length (PFC_TCP pchain) > 0 \<or> length (FCO_networkFilters opt) > 0)
            \<and> (length (PFC_HTTP pchain) > 0 \<or> FCO_httpOpts opt \<noteq> None)
         then Error ''cannot set both network and HTTP filter chains''
         else if i \<ge> length fcs then Panicked
         else
           (let filters = FC_Filters (fcs ! i) @ PFC_TCP pchain @ FCO_networkFilters opt in
            case FCO_httpOpts opt of
              None \<Rightarrow>
                marshalChains mesh opts (i + 1) pchains (fcs[i := (fcs ! i)\<lparr>FC_Filters := filters\<rparr>])
            | Some httpOpts \<Rightarrow>
                (case mesh of
                   None \<Rightarrow> Panicked
                 | Some m \<Rightarrow>
                     marshalChains mesh opts (i + 1) pchains
                       (fcs[i := (fcs ! i)\<lparr>FC_Filters := filters @
                              [HttpConnectionManagerFilter
                                 (buildHTTPConnectionManager m httpOpts (PFC_HTTP pchain))]\<rparr>])))))"

text \<open>
  \<^verbatim>\<open>marshalFilters\<close>. \<^verbatim>\<open>mesh\<close> is \<^verbatim>\<open>opts.env.Mesh\<close>, a pointer that is nil
  when the options carry no environment; it is dereferenced for an HTTP chain only.
\<close>

definition marshalFilters ::
    "MeshConfig option \<Rightarrow> Listener \<Rightarrow> buildListenerOpts \<Rightarrow> PluginFilterChain list \<Rightarrow> Listener result" where
  "marshalFilters mesh l opts pchains =
     (if length (LO_filterChainOpts opts) = 0
      then Error ''must have more than 0 chains in listener''
      else case marshalChains mesh (LO_filterChainOpts opts) 0 pchains (L_FilterChains l) of
             Ok fcs \<Rightarrow> Ok (l\<lparr>L_FilterChains := fcs\<rparr>)
           | Error err \<Rightarrow> Error err
           | Panicked \<Rightarrow> Panicked)"

definition emptyPluginChain :: PluginFilterChain where
  "emptyPluginChain = \<lparr>PFC_HTTP = [], PFC_TCP = []\<rparr>"

definition newMutable :: "Listener \<Rightarrow> MutableObjects" where
  "newMutable l =
     \<lparr>MO_Listener = l, MO_FilterChains = replicate (length (L_FilterChains l)) emptyPluginChain\<rparr>"

text \<open>The loops over the plugins: an error of a hook is logged and the loop goes on.\<close>

definition callListenerPlugins ::
    "(Plugin \<Rightarrow> Environment \<Rightarrow> InputParams \<Rightarrow> MutableObjects \<Rightarrow> string option \<times> MutableObjects) \<Rightarrow>
     Plugin list \<Rightarrow> Environment \<Rightarrow> InputParams \<Rightarrow> MutableObjects \<times> GenState \<Rightarrow> MutableObjects \<times> GenState" where
  "callListenerPlugins hook plugins env params =
     fold (\<lambda>p (mutable, g).
             case hook p env params mutable of
               (None, mutable') \<Rightarrow> (mutable', g)
             | (Some err, mutable') \<Rightarrow> (mutable', warn err g))
       plugins"

subsection \<open>Inbound listeners\<close>

record InboundState =
  inboundListeners :: "Listener list"
  inboundListenerMap :: "(string \<times> Listener) list"
  inboundGen :: GenState

definition inboundInstanceStep ::
    "Deps \<Rightarrow> ListenerDeps \<Rightarrow> Plugin list \<Rightarrow> Environment \<Rightarrow> Proxy \<Rightarrow> ServiceInstance list \<Rightarrow>
     ServiceInstance \<Rightarrow> InboundState \<Rightarrow> InboundState result" where
  "inboundInstanceStep d ld plugins env node proxyInstances instance st =
     (let endpoint = Instance_Endpoint instance;
          protocol = Port_Protocol (Endpoint_ServicePort endpoint);
          listenerMapKey = Endpoint_Address endpoint @ '':'' @ itoa (Endpoint_Port endpoint)
      in case map_of (inboundListenerMap st) listenerMapKey of
           Some l \<Rightarrow>
             Ok (st\<lparr>inboundGen := warn (''Conflicting inbound listeners on '' @ listenerMapKey
                                          @ '': previous listener '' @ L_Name l) (inboundGen st)\<rparr>)
         | None \<Rightarrow>
             (let listenerType = ModelProtocolToListenerType d protocol;
                  chains =
                    (case listenerType of
                       ListenerTypeHTTP \<Rightarrow>
                         Some [\<lparr>FCO_sniHosts = [], FCO_tlsContext = None,
                                FCO_httpOpts = Some
                                  \<lparr>HLO_routeConfig = buildSidecarInboundHTTPRouteConfig ld env node instance,
                                   HLO_rds = [], HLO_useRemoteAddress = False, HLO_direction = INGRESS,
                                   HLO_connectionManager = None\<rparr>,
                                FCO_networkFilters = []\<rparr>]
                     | ListenerTypeTCP \<Rightarrow>
                         Some [\<lparr>FCO_sniHosts = [], FCO_tlsContext = None, FCO_httpOpts = None,
                                FCO_networkFilters = buildInboundNetworkFilters ld instance\<rparr>]
                     | ListenerTypeUnknown \<Rightarrow> None)
              in case chains of
                   None \<Rightarrow> Ok (st\<lparr>inboundGen := warn ''Unsupported inbound protocol'' (inboundGen st)\<rparr>)
                 | Some fco \<Rightarrow>
                     (let listenerOpts = \<lparr>LO_ip = Endpoint_Address endpoint, LO_port = Endpoint_Port endpoint,
                                          LO_protocol = protocol, LO_bindToPort = False,
                                          LO_filterChainOpts = fco\<rparr>;
                          params = \<lparr>IP_ListenerType = listenerType, IP_Node = node,
                                    IP_ProxyInstances = proxyInstances,
                                    IP_ServiceInstance = Some instance, IP_Service = None\<rparr>;
                          (mutable, g) = callListenerPlugins OnInboundListener plugins env params
                                           (newMutable (buildListener listenerOpts), inboundGen st)
                      in case marshalFilters (Some (Mesh env)) (MO_Listener mutable) listenerOpts (MO_FilterChains mutable) of
                           Panicked \<Rightarrow> Panicked
                         | Error err \<Rightarrow> Ok (st\<lparr>inboundGen := warn (''buildSidecarInboundListeners '' @ err) g\<rparr>)
                         | Ok l \<Rightarrow>
                             Ok (st\<lparr>inboundListeners := inboundListeners st @ [l],
                                    inboundListenerMap := AList.update listenerMapKey l (inboundListenerMap st),
                                    inboundGen := g\<rparr>))))"

definition buildSidecarInboundListeners ::
    "Deps \<Rightarrow> ListenerDeps \<Rightarrow> Plugin list \<Rightarrow> Environment \<Rightarrow> Proxy \<Rightarrow> ServiceInstance list \<Rightarrow>
     GenState \<Rightarrow> (Listener list \<times> GenState) result" where
  "buildSidecarInboundListeners d ld plugins env node proxyInstances g =
     (case foldResult (inboundInstanceStep d ld plugins env node proxyInstances) proxyInstances
             \<lparr>inboundListeners = [], inboundListenerMap = [], inboundGen = g\<rparr> of
        Ok st \<Rightarrow> Ok (inboundListeners st, inboundGen st)
      | Error err \<Rightarrow> Error err
      | Panicked \<Rightarrow> Panicked)"

subsection \<open>Outbound listeners\<close>

text \<open>
  The two maps of \<^verbatim>\<open>buildSidecarOutboundListeners\<close> and the gauges. A listener of
  the map is an object reached through its pointer: merging filter chains into the current
  listener updates the entry of the map.
\<close>

record OutboundState =
  listenerMap :: "(string \<times> Listener) list"
  listenerTypeMap :: "(string \<times> Protocol) list"
  gen :: GenState

text \<open>Reading the type map: the zero value for a missing key.\<close>

definition listenerTypeOf :: "OutboundState \<Rightarrow> string \<Rightarrow> Protocol" where
  "listenerTypeOf st key = (case map_of (listenerTypeMap st) key of None \<Rightarrow> ProtocolOther [] | Some p \<Rightarrow> p)"

text \<open>The two statements of a conflict: the gauge and the warning.\<close>

definition listenerConflict :: "string \<Rightarrow> string \<Rightarrow> Listener \<Rightarrow> OutboundState \<Rightarrow> OutboundState" where
  "listenerConflict listenerMapKey clusterName current st =
     st\<lparr>gen := warn (''buildSidecarOutboundListeners: listener conflict on '' @ listenerMapKey
                      @ '', destination:'' @ clusterName @ '', current Listener: '' @ L_Name current)
                 ((gen st)\<lparr>conflictingOutbound := conflictingOutbound (gen st) + 1\<rparr>)\<rparr>"

text \<open>
  The part of the loop body after the switch: the listener is built, the plugins run, the
  filters are marshalled, and the listener is merged into the current one or entered in
  the maps.
\<close>

definition finishOutboundListener ::
    "Deps \<Rightarrow> Plugin list \<Rightarrow> Environment \<Rightarrow> Proxy \<Rightarrow> ServiceInstance list \<Rightarrow> Service \<Rightarrow> Port \<Rightarrow>
     string \<Rightarrow> string \<Rightarrow> filterChainOpts list \<Rightarrow> Listener option \<Rightarrow> OutboundState \<Rightarrow> OutboundState result" where
  "finishOutboundListener d plugins env node proxyInstances service servicePort listenerMapKey
       listenAddress fco currentListener st =
     (let listenerOpts = \<lparr>LO_ip = listenAddress, LO_port = Port_Port servicePort,
                          LO_protocol = Port_Protocol servicePort, LO_bindToPort = False,
                          LO_filterChainOpts = fco\<rparr>;
          params = \<lparr>IP_ListenerType = ModelProtocolToListenerType d (Port_Protocol servicePort),
                    IP_Node = node, IP_ProxyInstances = proxyInstances,
                    IP_ServiceInstance = None, IP_Service = Some service\<rparr>;
          (mutable, g) = callListenerPlugins OnOutboundListener plugins env params
                           (newMutable (buildListener listenerOpts), gen st)
      in case marshalFilters (Some (Mesh env)) (MO_Listener mutable) listenerOpts (MO_FilterChains mutable) of
           Panicked \<Rightarrow> Panicked
         | Error err \<Rightarrow> Ok (st\<lparr>gen := warn (''buildSidecarOutboundListeners: '' @ err) g\<rparr>)
         | Ok l \<Rightarrow>
             (case currentListener of
                Some current \<Rightarrow>
                  Ok (st\<lparr>listenerMap :=
                           AList.update listenerMapKey
                             (current\<lparr>L_FilterChains := L_FilterChains current @ L_FilterChains l\<rparr>)
                             (listenerMap st),
                         gen := g\<rparr>)
              | None \<Rightarrow>
                  Ok (st\<lparr>listenerMap := AList.update listenerMapKey l (listenerMap st),
                         listenerTypeMap := AList.update listenerMapKey (Port_Protocol servicePort)
                                              (listenerTypeMap st),
                         gen := g\<rparr>)))"

definition outboundPortStep ::
    "Deps \<Rightarrow> ListenerDeps \<Rightarrow> Plugin list \<Rightarrow> Environment \<Rightarrow> Proxy \<Rightarrow> ServiceInstance list \<Rightarrow>
     Service list \<Rightarrow> Service \<Rightarrow> Port \<Rightarrow> OutboundState \<Rightarrow> OutboundState result" where
  "outboundPortStep d ld plugins env node proxyInstances services service servicePort st =
     (let clusterName = BuildSubsetKey TrafficDirectionOutbound [] (Service_Hostname service)
                          (Port_Port servicePort)
      in case ModelProtocolToListenerType d (Port_Protocol servicePort) of
           ListenerTypeHTTP \<Rightarrow>
             (let listenerMapKey = WildcardAddress @ '':'' @ itoa (Port_Port servicePort) in
              case map_of (listenerMap st) listenerMapKey of
                Some l \<Rightarrow>
                  Ok (if \<not> IsHTTP d (listenerTypeOf st listenerMapKey)
                      then listenerConflict listenerMapKey clusterName l st else st)
              | None \<Rightarrow>
                  finishOutboundListener d plugins env node proxyInstances service servicePort
                    listenerMapKey WildcardAddress
                    [\<lparr>FCO_sniHosts = [], FCO_tlsContext = None,
                      FCO_httpOpts = Some
                        \<lparr>HLO_routeConfig = BuildSidecarOutboundHTTPRouteConfig ld env node proxyInstances
                                             services (itoa (Port_Port servicePort)),
                         HLO_rds = [],
                         HLO_useRemoteAddress = (Proxy_Type node = Router),
                         HLO_direction = (if Proxy_Type node = Router then INGRESS else EGRESS),
                         HLO_connectionManager = None\<rparr>,
                      FCO_networkFilters = []\<rparr>]
                    None st)
         | ListenerTypeTCP \<Rightarrow>
             (let listenAddress = (if Service_Resolution service \<noteq> Passthrough
                                   then GetServiceAddressForProxy d service node else WildcardAddress);
                  addresses = (if Service_Resolution service \<noteq> Passthrough then [listenAddress] else []);
                  listenerMapKey = listenAddress @ '':'' @ itoa (Port_Port servicePort);
                  currentListener = map_of (listenerMap st) listenerMapKey;
                  fco = [\<lparr>FCO_sniHosts =
                             (if Port_Protocol servicePort = ProtocolHTTPS \<and> Service_MeshExternal service
                              then [Service_Hostname service] else []),
                           FCO_tlsContext = None, FCO_httpOpts = None,
                           FCO_networkFilters = buildOutboundNetworkFilters ld clusterName addresses servicePort\<rparr>]
              in case currentListener of
                   Some current \<Rightarrow>
                     if \<not> IsTCP d (listenerTypeOf st listenerMapKey)
                        \<or> Port_Protocol servicePort \<noteq> ProtocolHTTPS
                        \<or> \<not> Service_MeshExternal service
                     then Ok (listenerConflict listenerMapKey clusterName current st)
                     else finishOutboundListener d plugins env node proxyInstances service servicePort
                            listenerMapKey listenAddress fco currentListener st
                 | None \<Rightarrow>
                     finishOutboundListener d plugins env node proxyInstances service servicePort
                       listenerMapKey listenAddress fco None st)
         | ListenerTypeUnknown \<Rightarrow> Ok st)"

text \<open>
  The loop over the listener map that ends \<^verbatim>\<open>buildSidecarOutboundListeners\<close>. Go
  leaves the order of a range over a map open; the model takes the order of insertion.
\<close>

fun collectOutbound ::
    "Deps \<Rightarrow> ListenerDeps \<Rightarrow> OutboundState \<Rightarrow> (string \<times> Listener) list \<Rightarrow>
     Listener list \<times> Listener list \<times> GenState \<Rightarrow> Listener list \<times> Listener list \<times> GenState" where
  "collectOutbound d ld st [] acc = acc"
| "collectOutbound d ld st ((name, l) # rest) (tcpListeners, httpListeners, g) =
     (case Validate ld l of
        Some err \<Rightarrow>
          collectOutbound d ld st rest
            (tcpListeners, httpListeners,
             warn (''buildSidecarOutboundListeners: error validating listener '' @ name @ '': '' @ err)
               (g\<lparr>invalidOutboundListeners := invalidOutboundListeners g + 1\<rparr>))
      | None \<Rightarrow>
          if IsTCP d (listenerTypeOf st name)
          then collectOutbound d ld st rest (tcpListeners @ [l], httpListeners, g)
          else collectOutbound d ld st rest (tcpListeners, httpListeners @ [l], g))"

definition buildSidecarOutboundListeners ::
    "Deps \<Rightarrow> ListenerDeps \<Rightarrow> Plugin list \<Rightarrow> Environment \<Rightarrow> Proxy \<Rightarrow> ServiceInstance list \<Rightarrow>
     Service list \<Rightarrow> GenState \<Rightarrow> (Listener list \<times> GenState) result" where
  "buildSidecarOutboundListeners d ld plugins env node proxyInstances services g =
     (case foldResult
             (\<lambda>service. foldResult
                (outboundPortStep d ld plugins env node proxyInstances services service)
                (Service_Ports service))
             services \<lparr>listenerMap = [], listenerTypeMap = [], gen = g\<rparr> of
        Ok st \<Rightarrow>
          (case collectOutbound d ld st (listenerMap st) ([], [], gen st) of
             (tcpListeners, httpListeners, g') \<Rightarrow> Ok (tcpListeners @ httpListeners, g'))
      | Error err \<Rightarrow> Error err
      | Panicked \<Rightarrow> Panicked)"

subsection \<open>Management port listeners\<close>

definition mgmtPortStep ::
    "ListenerDeps \<Rightarrow> string \<Rightarrow> Port \<Rightarrow> Listener list \<times> GenState \<Rightarrow> (Listener list \<times> GenState) result" where
  "mgmtPortStep ld managementIP mPort acc =
     (case acc of
        (listeners, g) \<Rightarrow>
          if Port_Protocol mPort \<in> {ProtocolHTTP, ProtocolHTTP2, ProtocolGRPC, ProtocolTCP,
                                     ProtocolHTTPS, ProtocolMongo, ProtocolRedis}
          then
            (let instance = \<lparr>Instance_Endpoint =
                                \<lparr>Endpoint_Address = managementIP, Endpoint_Port = Port_Port mPort,
                                 Endpoint_ServicePort = mPort\<rparr>,
                              Instance_Service =
                                \<lparr>Service_Hostname = ManagementClusterHostname, Service_Address = [],
                                 Service_Ports = [], Service_ExternalName = [],
                                 Service_MeshExternal = False, Service_Resolution = ClientSideLB\<rparr>,
                              Instance_Labels = []\<rparr>;
                 listenerOpts = \<lparr>LO_ip = managementIP, LO_port = Port_Port mPort,
                                 LO_protocol = ProtocolTCP, LO_bindToPort = False,
                                 LO_filterChainOpts =
                                   [\<lparr>FCO_sniHosts = [], FCO_tlsContext = None, FCO_httpOpts = None,
                                     FCO_networkFilters = buildInboundNetworkFilters ld instance\<rparr>]\<rparr>
             in case marshalFilters None (buildListener listenerOpts) listenerOpts [emptyPluginChain] of
                  Panicked \<Rightarrow> Panicked
                | Error err \<Rightarrow> Ok (listeners, warn (''buildMgmtPortListeners '' @ err) g)
                | Ok l \<Rightarrow> Ok (listeners @ [l], g))
          else Ok (listeners, warn ''Unsupported inbound protocol for management port'' g))"

definition buildMgmtPortListeners ::
    "ListenerDeps \<Rightarrow> Port list \<Rightarrow> string \<Rightarrow> GenState \<Rightarrow> (Listener list \<times> GenState) result" where
  "buildMgmtPortListeners ld managementPorts managementIP g =
     foldResult (mgmtPortStep ld (if managementIP = [] then ''::1'' else managementIP))
       managementPorts ([], g)"

subsection \<open>The listeners of a sidecar\<close>

text \<open>
  Modelled from the spec: \<^verbatim>\<open>util.GetByAddress\<close> is defined in the util package. The
  spec: management-port listeners whose address collides with a service listener are
  dropped; the lookup finds the first listener bound to the address.
\<close>

definition GetByAddress :: "Listener list \<Rightarrow> Address \<Rightarrow> Listener option" where
  "GetByAddress listeners addr = List.find (\<lambda>l. L_Address l = addr) listeners"

fun appendMgmtListeners :: "Listener list \<Rightarrow> Listener list \<times> GenState \<Rightarrow> Listener list \<times> GenState" where
  "appendMgmtListeners [] acc = acc"
| "appendMgmtListeners (m # ms) (listeners, g) =
     (case GetByAddress listeners (L_Address m) of
        Some l \<Rightarrow>
          appendMgmtListeners ms
            (listeners,
             warn (''Omitting listener for management address '' @ L_Name m
                   @ '' due to collision with service listener '' @ L_Name l) g)
      | None \<Rightarrow> appendMgmtListeners ms (listeners @ [m], g))"

definition virtualListener :: "Proxy \<Rightarrow> MeshConfig \<Rightarrow> Listener" where
  "virtualListener node mesh =
     \<lparr>L_Name = VirtualListenerName,
      L_Address = BuildAddress WildcardAddress (uint32 (Mesh_ProxyListenPort mesh)),
      L_FilterChains =
        [\<lparr>FC_SniDomains = None, FC_TlsContext = None,
          FC_Filters = [TcpProxyFilter BlackHoleCluster BlackHoleCluster]\<rparr>],
      L_BindToPortFalse = False,
      L_Transparent = (if map_of (Metadata node) ''INTERCEPTION_MODE'' = Some ''TPROXY''
                       then Some True else None),
      L_UseOriginalDst = Some True\<rparr>"

text \<open>The block guarded by \<^verbatim>\<open>mesh.ProxyListenPort > 0\<close>.\<close>

definition interceptListeners ::
    "Deps \<Rightarrow> ListenerDeps \<Rightarrow> Plugin list \<Rightarrow> Environment \<Rightarrow> Proxy \<Rightarrow> ServiceInstance list \<Rightarrow>
     Service list \<Rightarrow> GenState \<Rightarrow> (Listener list \<times> GenState) result" where
  "interceptListeners d ld plugins env node proxyInstances services g =
     (case buildSidecarInboundListeners d ld plugins env node proxyInstances g of
        Panicked \<Rightarrow> Panicked
      | Error err \<Rightarrow> Error err
      | Ok (inbound, g1) \<Rightarrow>
          (case buildSidecarOutboundListeners d ld plugins env node proxyInstances services g1 of
             Panicked \<Rightarrow> Panicked
           | Error err \<Rightarrow> Error err
           | Ok (outbound, g2) \<Rightarrow>
               (case buildMgmtPortListeners ld (ManagementPorts env (IPAddress node)) (IPAddress node) g2 of
                  Panicked \<Rightarrow> Panicked
                | Error err \<Rightarrow> Error err
                | Ok (mgmtListeners, g3) \<Rightarrow>
                    (case appendMgmtListeners mgmtListeners (inbound @ outbound, g3) of
                       (listeners, g4) \<Rightarrow> Ok (listeners @ [virtualListener node (Mesh env)], g4)))))"

text \<open>The block guarded by \<^verbatim>\<open>mesh.ProxyHttpPort > 0\<close>.\<close>

definition httpProxyOpts ::
    "ListenerDeps \<Rightarrow> Environment \<Rightarrow> Proxy \<Rightarrow> ServiceInstance list \<Rightarrow> Service list \<Rightarrow> buildListenerOpts" where
  "httpProxyOpts ld env node proxyInstances services =
     \<lparr>LO_ip = (if Proxy_Type node = Router then WildcardAddress else LocalhostAddress),
      LO_port = Mesh_ProxyHttpPort (Mesh env),
      LO_protocol = ProtocolHTTP,
      LO_bindToPort = True,
      LO_filterChainOpts =
        [\<lparr>FCO_sniHosts = [], FCO_tlsContext = None,
          FCO_httpOpts = Some
            \<lparr>HLO_routeConfig = BuildSidecarOutboundHTTPRouteConfig ld env node proxyInstances services RDSHttpProxy,
             HLO_rds = [],
             HLO_useRemoteAddress = (Proxy_Type node = Router),
             HLO_direction = (if Proxy_Type node = Router then INGRESS else EGRESS),
             HLO_connectionManager = Some (emptyConnectionManager\<lparr>HCM_AllowAbsoluteUrl := Some True\<rparr>)\<rparr>,
          FCO_networkFilters = []\<rparr>]\<rparr>"

definition httpProxyListener ::
    "ListenerDeps \<Rightarrow> Environment \<Rightarrow> Proxy \<Rightarrow> ServiceInstance list \<Rightarrow> Service list \<Rightarrow>
     Listener list \<times> GenState \<Rightarrow> (Listener list \<times> GenState) result" where
  "httpProxyListener ld env node proxyInstances services acc =
     (case acc of
        (listeners, g) \<Rightarrow>
          (let opts = httpProxyOpts ld env node proxyInstances services in
           case marshalFilters (Some (Mesh env)) (buildListener opts) opts [emptyPluginChain] of
             Panicked \<Rightarrow> Panicked
           | Error err \<Rightarrow> Ok (listeners, warn (''buildSidecarListeners '' @ err) g)
           | Ok l \<Rightarrow> Ok (listeners @ [l], g)))"

definition buildSidecarListeners ::
    "Deps \<Rightarrow> ListenerDeps \<Rightarrow> Plugin list \<Rightarrow> Environment \<Rightarrow> Proxy \<Rightarrow> GenState \<Rightarrow>
     (Listener list \<times> GenState) result" where
  "buildSidecarListeners d ld plugins env node g =
     (case GetProxyServiceInstances env node of
        Inl err \<Rightarrow> Error err
      | Inr proxyInstances \<Rightarrow>
          (case Services env of
             Inl err \<Rightarrow> Error err
           | Inr services0 \<Rightarrow>
               (let services = sort_key Service_Hostname services0 in
                case (if Mesh_ProxyListenPort (Mesh env) > 0
                      then interceptListeners d ld plugins env node proxyInstances services g
                      else Ok ([], g)) of
                  Panicked \<Rightarrow> Panicked
                | Error err \<Rightarrow> Error err
                | Ok acc \<Rightarrow>
                    if Mesh_ProxyHttpPort (Mesh env) > 0
                    then httpProxyListener ld env node proxyInstances services acc
                    else Ok acc)))"

definition BuildListeners ::
    "Deps \<Rightarrow> ListenerDeps \<Rightarrow> Plugin list \<Rightarrow> Environment \<Rightarrow> Proxy \<Rightarrow> GenState \<Rightarrow>
     (Listener list \<times> GenState) result" where
  "BuildListeners d ld plugins env node g =
     (case Proxy_Type node of
        Sidecar \<Rightarrow> buildSidecarListeners d ld plugins env node g
      | Router \<Rightarrow>
          (case buildGatewayListeners ld env node of Inl err \<Rightarrow> Error err | Inr ls \<Rightarrow> Ok (ls, g))
      | Ingress \<Rightarrow>
          (case buildGatewayListeners ld env node of Inl err \<Rightarrow> Error err | Inr ls \<Rightarrow> Ok (ls, g))
      | OtherNodeType t \<Rightarrow> Ok ([], g))"

section \<open>Reference instances of the parameters\<close>

text \<open>
  Concrete values of the parameters, used to run the functions above on concrete inputs.
\<close>

fun splitOn :: "char \<Rightarrow> string \<Rightarrow> string list" where
  "splitOn sep [] = [[]]"
| "splitOn sep (c # cs) =
     (if c = sep then [] # splitOn sep cs
      else (case splitOn sep cs of [] \<Rightarrow> [[c]] | w # ws \<Rightarrow> (c # w) # ws))"

definition nodeTypeOf :: "string \<Rightarrow> NodeType option" where
  "nodeTypeOf t =
     (if t = ''sidecar'' then Some Sidecar
      else if t = ''ingress'' then Some Ingress
      else if t = ''router'' then Some Router
      else None)"

text \<open>
  Modelled from the spec: \<^verbatim>\<open>model.ParseServiceNode\<close> is defined in the model package.
  The spec: a node id is \<^verbatim>\<open>type~ip~id~domain\<close>, "four tilde-separated fields, with
  type in {sidecar, ingress, router}"; anything else is malformed.
\<close>

definition parseServiceNode :: "string \<Rightarrow> string + Proxy" where
  "parseServiceNode s =
     (case splitOn (CHR ''~'') s of
        [t, ip, ident, dm] \<Rightarrow>
          (case nodeTypeOf t of
             Some ty \<Rightarrow> Inr \<lparr>Proxy_Type = ty, IPAddress = ip, ID = ident, Domain = dm, Metadata = []\<rparr>
           | None \<Rightarrow> Inl ''invalid node type in the service node'')
      | _ \<Rightarrow> Inl ''missing parts in the service node'')"

text \<open>The environment of a step in which every push succeeds.\<close>

definition quietEnv :: StreamEnv where
  "quietEnv =
     \<lparr>ParseServiceNode = parseServiceNode, ParseMetadata = (\<lambda>m. m),
      BuildRouteConfig = (\<lambda>routeName. routeName), proxyInstancesErr = None,
      sendResult = SendOk, pushCdsErr = None, pushLdsErr = None, pushEdsErr = None\<rparr>"

text \<open>The package-level state of a server that no client has connected to.\<close>

definition emptyServer :: DiscoveryServer where
  "emptyServer =
     \<lparr>conns = (\<lambda>p. newXdsConnection [] timeZero), adsClients = [],
      adsSidecarIDConnectionsMap = [], edsClusters = [], connectionNumber = 0, sent = [],
      warnings = [], xdsClients = 0, cdsReject = (\<lambda>k. 0), ldsReject = (\<lambda>k. 0),
      edsReject = (\<lambda>k. 0), writeTimeout = 0, pushTimeouts = 0, pushes = (\<lambda>k. 0),
      pushErrors = (\<lambda>k. 0)\<rparr>"

definition request :: "string \<Rightarrow> string \<Rightarrow> string list \<Rightarrow> DiscoveryRequest" where
  "request nodeId typeUrl names =
     \<lparr>Node = Some \<lparr>Id = nodeId, NodeMetadata = []\<rparr>, TypeUrl = typeUrl, ResourceNames = names,
      VersionInfo = [], ResponseNonce = [], ErrorDetail = None\<rparr>"

text \<open>
  The protocol predicates and the duration conversion as the model, plugin and util
  packages define them.
\<close>

definition refDeps :: Deps where
  "refDeps =
     \<lparr>GogoDurationToDuration = (\<lambda>d. case d of None \<Rightarrow> 0 | Some x \<Rightarrow> Seconds x * Second + Nanos x),
      IsHTTP = (\<lambda>p. p = ProtocolHTTP \<or> p = ProtocolHTTP2 \<or> p = ProtocolGRPC),
      IsHTTP2 = (\<lambda>p. p = ProtocolHTTP2 \<or> p = ProtocolGRPC),
      IsTCP = (\<lambda>p. p = ProtocolTCP \<or> p = ProtocolHTTPS \<or> p = ProtocolMongo \<or> p = ProtocolRedis),
      ModelProtocolToListenerType =
        (\<lambda>p. if p = ProtocolHTTP \<or> p = ProtocolHTTP2 \<or> p = ProtocolGRPC then ListenerTypeHTTP
              else if p = ProtocolTCP \<or> p = ProtocolHTTPS \<or> p = ProtocolMongo \<or> p = ProtocolRedis
              then ListenerTypeTCP else ListenerTypeUnknown),
      GetServiceAddressForProxy = (\<lambda>service node. Service_Address service)\<rparr>"

definition refListenerDeps :: ListenerDeps where
  "refListenerDeps =
     \<lparr>BuildSidecarOutboundHTTPRouteConfig = (\<lambda>env node proxyInstances services routeName. routeName),
      buildSidecarInboundHTTPRouteConfig = (\<lambda>env node instance. ''inbound''),
      buildInboundNetworkFilters = (\<lambda>instance. [TcpProxyFilter ''inbound'' ''inbound'']),
      buildOutboundNetworkFilters = (\<lambda>clusterName addresses port. [TcpProxyFilter clusterName clusterName]),
      Validate = (\<lambda>l. None),
      buildGatewayListeners = (\<lambda>env node. Inr [])\<rparr>"

definition refMesh :: MeshConfig where
  "refMesh =
     \<lparr>Mesh_ConnectTimeout = \<lparr>Seconds = 1, Nanos = 0\<rparr>, Mesh_AuthPolicy = MeshConfig_NONE,
      Mesh_ProxyListenPort = 15001, Mesh_ProxyHttpPort = 0,
      Mesh_RdsRefreshDelay = \<lparr>Seconds = 1, Nanos = 0\<rparr>, Mesh_AccessLogFile = [],
      Mesh_EnableTracing = False\<rparr>"

definition refEnvironment :: "Service list \<Rightarrow> ServiceInstance list \<Rightarrow> MeshConfig \<Rightarrow> Environment" where
  "refEnvironment services instances mesh =
     \<lparr>Services = Inr services, GetProxyServiceInstances = (\<lambda>node. Inr instances),
      ManagementPorts = (\<lambda>ip. []), GetDestinationRule = (\<lambda>hostname. None),
      InstancesByPort = (\<lambda>hostname port. Inr []), GetIstioServiceAccounts = (\<lambda>hostname ports. []),
      Mesh = mesh\<rparr>"

definition sidecarNode :: Proxy where
  "sidecarNode =
     \<lparr>Proxy_Type = Sidecar, IPAddress = ''10.0.0.5'', ID = ''a'', Domain = ''ns.svc.cluster.local'',
      Metadata = []\<rparr>"

definition emptyGenState :: GenState where
  "emptyGenState = \<lparr>conflictingOutbound = 0, invalidOutboundListeners = 0, genLog = []\<rparr>"

section \<open>What a push signal is to send\<close>

text \<open>
  The resource types a connection watches, in the order of the push; the error (if any)
  of pushing a type in an environment, and the response a successful push of it sends.
\<close>

definition watchedTypes :: "XdsConnection \<Rightarrow> string list" where
  "watchedTypes con =
     (if CDSWatch con then [ClusterType] else [])
     @ (if length (Routes con) > 0 then [RouteType] else [])
     @ (if length (Clusters con) > 0 then [EndpointType] else [])
     @ (if LDSWatch con then [ListenerType] else [])"

definition pushError :: "StreamEnv \<Rightarrow> string \<Rightarrow> string option" where
  "pushError env t =
     (if t = ClusterType then pushCdsErr env
      else if t = ListenerType then pushLdsErr env
      else if t = EndpointType then pushEdsErr env
      else (case proxyInstancesErr env of
              Some err \<Rightarrow> Some err
            | None \<Rightarrow> (case sendResult env of
                         SendOk \<Rightarrow> None
                       | SendError err \<Rightarrow> Some err
                       | SendTimeout \<Rightarrow> Some ''timeout sending'')))"

definition responseOf :: "StreamEnv \<Rightarrow> XdsConnection \<Rightarrow> string \<Rightarrow> DiscoveryResponse" where
  "responseOf env con t =
     (if t = RouteType then Response RouteType (map (BuildRouteConfig env) (Routes con))
      else if t = EndpointType then Response EndpointType (Clusters con)
      else Response t [])"

section \<open>Auxiliary definitions for the proofs\<close>

text \<open>The state in which \<^verbatim>\<open>handleRequest\<close> dispatches a request whose node id parsed.\<close>

definition prepared :: "StreamEnv \<Rightarrow> nat \<Rightarrow> CoreNode \<Rightarrow> Proxy \<Rightarrow> DiscoveryServer \<Rightarrow> DiscoveryServer" where
  "prepared env p node nt s =
     (let s1 = updCon p (\<lambda>c. c\<lparr>modelNode := Some (nt\<lparr>Metadata := ParseMetadata env (NodeMetadata node)\<rparr>)\<rparr>) s
      in if ConID (conns s1 p) = []
         then (case connectionID (Id node) s1 of (cid, s') \<Rightarrow> updCon p (\<lambda>c. c\<lparr>ConID := cid\<rparr>) s')
         else s1)"

definition knownTypes :: "string set" where
  "knownTypes = {ClusterType, ListenerType, RouteType, EndpointType}"

text \<open>
  The push of a signal as a sequence of stages, one for each watched type, and the part of
  the state of a connection that decides which stages run.
\<close>

definition watch :: "nat \<Rightarrow> DiscoveryServer \<Rightarrow> bool \<times> string list \<times> string list \<times> bool \<times> Proxy option" where
  "watch p s = (CDSWatch (conns s p), Routes (conns s p), Clusters (conns s p), LDSWatch (conns s p),
                modelNode (conns s p))"

definition pushStage :: "StreamEnv \<Rightarrow> nat \<Rightarrow> string \<Rightarrow> DiscoveryServer \<Rightarrow> DiscoveryServer outcome" where
  "pushStage env p t s =
     (if t = ClusterType then (if modelNode (conns s p) = None then Panic else pushCds env p s)
      else if t = ListenerType then (if modelNode (conns s p) = None then Panic else pushLds env p s)
      else if t = EndpointType then pushEds env p s
      else pushRoute env p s)"

fun runStages :: "StreamEnv \<Rightarrow> nat \<Rightarrow> string list \<Rightarrow> DiscoveryServer \<Rightarrow> DiscoveryServer outcome" where
  "runStages env p [] s = Continue s"
| "runStages env p (t # ts) s = andThen (pushStage env p t s) (runStages env p ts)"





text \<open>What the push coordinator does to the connection it visits.\<close>

definition clientAfter :: "select_outcome \<times> time \<Rightarrow> XdsConnection \<Rightarrow> XdsConnection" where
  "clientAfter sel con =
     (case sel of
        (PushSent, now) \<Rightarrow> con\<lparr>LastPush := now, LastPushFailure := timeZero\<rparr>
      | (DoneFired, now) \<Rightarrow> con
      | (TimedOut, now) \<Rightarrow> if IsZero (LastPushFailure con) then con\<lparr>LastPushFailure := now\<rparr> else con)"

text \<open>The address an outbound TCP listener is bound to.\<close>

definition tcpListenAddress :: "Deps \<Rightarrow> Service \<Rightarrow> Proxy \<Rightarrow> string" where
  "tcpListenAddress d service node =
     (if Service_Resolution service \<noteq> Passthrough then GetServiceAddressForProxy d service node
      else WildcardAddress)"






text \<open>The key under which the listener of a service port is entered in the listener map.\<close>

definition outboundListenerKey :: "Deps \<Rightarrow> Proxy \<Rightarrow> Service \<Rightarrow> Port \<Rightarrow> string option" where
  "outboundListenerKey d node service servicePort =
     (case ModelProtocolToListenerType d (Port_Protocol servicePort) of
        ListenerTypeHTTP \<Rightarrow> Some (WildcardAddress @ '':'' @ itoa (Port_Port servicePort))
      | ListenerTypeTCP \<Rightarrow>
          Some (tcpListenAddress d service node @ '':'' @ itoa (Port_Port servicePort))
      | ListenerTypeUnknown \<Rightarrow> None)"






section \<open>Concrete inputs\<close>

definition nodeA :: string where
  "nodeA = ''sidecar~10.0.0.5~a~ns.svc.cluster.local''"

definition nodeB :: string where
  "nodeB = ''sidecar~10.0.0.6~b~ns.svc.cluster.local''"

text \<open>
  The state in which a stream at address 7 of a fresh server is after it has received the
  given events: still in its loop, or returned and torn down.
\<close>

definition stateAfter :: "(StreamEnv \<times> event) list \<Rightarrow> DiscoveryServer" where
  "stateAfter evs =
     (case StreamAggregatedResources 7 ''10.0.0.5:4000'' 0 evs emptyServer of
        Continue s \<Rightarrow> s
      | Return err s \<Rightarrow> s
      | Panic \<Rightarrow> emptyServer)"

definition edsFailsEnv :: StreamEnv where
  "edsFailsEnv = quietEnv\<lparr>pushEdsErr := Some ''eds send failure''\<rparr>"

definition cdsFailsEnv :: StreamEnv where
  "cdsFailsEnv = quietEnv\<lparr>pushCdsErr := Some ''cds send failure''\<rparr>"

definition edsWatcher :: DiscoveryServer where
  "edsWatcher = stateAfter [(quietEnv, Request (request nodeA EndpointType [''a'', ''b'']))]"

definition cdsClient :: DiscoveryServer where
  "cdsClient = stateAfter [(quietEnv, Request (request nodeA ClusterType []))]"

definition fullWatcher :: DiscoveryServer where
  "fullWatcher =
     stateAfter [(quietEnv, Request (request nodeA ClusterType [])),
                 (quietEnv, Request (request nodeA ClusterType [])),
                 (quietEnv, Request (request nodeA ListenerType [])),
                 (quietEnv, Request (request nodeA ListenerType [])),
                 (quietEnv, Request (request nodeA EndpointType [''outbound|80||a.ns.svc.cluster.local''])),
                 (quietEnv, Request (request nodeA EndpointType [''outbound|80||a.ns.svc.cluster.local''])),
                 (quietEnv, Request (request nodeA RouteType [''80''])),
                 (quietEnv, Request (request nodeA RouteType [''80'']))]"

definition stuckOnce :: DiscoveryServer where
  "stuckOnce = adsPushAll (\<lambda>k. (TimedOut, 5 * Second)) cdsClient"

definition httpPort80 :: Port where
  "httpPort80 = \<lparr>Port_Name = ''http'', Port_Port = 80, Port_Protocol = ProtocolHTTP\<rparr>"

definition tcpPort80 :: Port where
  "tcpPort80 = \<lparr>Port_Name = ''tcp'', Port_Port = 80, Port_Protocol = ProtocolTCP\<rparr>"

definition serviceA :: Service where
  "serviceA =
     \<lparr>Service_Hostname = ''a.ns.svc.cluster.local'', Service_Address = ''10.1.0.1'',
      Service_Ports = [httpPort80], Service_ExternalName = [], Service_MeshExternal = False,
      Service_Resolution = ClientSideLB\<rparr>"

definition serviceB :: Service where
  "serviceB =
     \<lparr>Service_Hostname = ''b.ns.svc.cluster.local'', Service_Address = ''10.1.0.2'',
      Service_Ports = [tcpPort80], Service_ExternalName = [], Service_MeshExternal = False,
      Service_Resolution = Passthrough\<rparr>"

definition instanceA :: ServiceInstance where
  "instanceA =
     \<lparr>Instance_Endpoint = \<lparr>Endpoint_Address = ''10.0.0.5'', Endpoint_Port = 9080,
                             Endpoint_ServicePort = httpPort80\<rparr>,
      Instance_Service = serviceA, Instance_Labels = []\<rparr>"

definition routerNode :: Proxy where
  "routerNode =
     \<lparr>Proxy_Type = Router, IPAddress = ''10.0.0.9'', ID = ''r'', Domain = ''ns.svc.cluster.local'',
      Metadata = []\<rparr>"

definition zeroTimeoutMesh :: MeshConfig where
  "zeroTimeoutMesh = refMesh\<lparr>Mesh_ConnectTimeout := \<lparr>Seconds = 0, Nanos = 0\<rparr>\<rparr>"

definition proxyOnlyMesh :: MeshConfig where
  "proxyOnlyMesh = refMesh\<lparr>Mesh_ProxyListenPort := 0, Mesh_ProxyHttpPort := 15002\<rparr>"

definition noPortMesh :: MeshConfig where
  "noPortMesh = refMesh\<lparr>Mesh_ProxyListenPort := 0, Mesh_ProxyHttpPort := 0\<rparr>"

definition emptyOutbound :: OutboundState where
  "emptyOutbound = \<lparr>listenerMap = [], listenerTypeMap = [], gen = emptyGenState\<rparr>"


text \<open>A request that carries no node: the \<^verbatim>\<open>Node\<close> pointer is nil.\<close>

definition nodelessRequest :: DiscoveryRequest where
  "nodelessRequest =
     \<lparr>Node = None, TypeUrl = ClusterType, ResourceNames = [], VersionInfo = [],
      ResponseNonce = [], ErrorDetail = None\<rparr>"

text \<open>A destination rule whose connection pool sets a TCP connect timeout of zero.\<close>

definition zeroTimeoutRule :: DestinationRule where
  "zeroTimeoutRule =
     \<lparr>DR_TrafficPolicy = Some
        \<lparr>TP_LoadBalancer = None,
         TP_ConnectionPool = Some
           \<lparr>Tcp = Some \<lparr>TCP_MaxConnections = 0,
                        TCP_ConnectTimeout = Some \<lparr>Seconds = 0, Nanos = 0\<rparr>\<rparr>,
            Http = None\<rparr>,
         TP_OutlierDetection = None, TP_Tls = None, TP_PortLevelSettings = []\<rparr>,
      DR_Subsets = []\<rparr>"

definition ruleEnvironment :: Environment where
  "ruleEnvironment =
     (refEnvironment [] [instanceA] refMesh)\<lparr>GetDestinationRule := (\<lambda>hostname. Some zeroTimeoutRule)\<rparr>"

section \<open>Verified properties\<close>

subsection \<open>Basic facts\<close>

lemma typeurl_distinct:
  "ClusterType \<noteq> ListenerType" "ClusterType \<noteq> RouteType" "ClusterType \<noteq> EndpointType"
  "ListenerType \<noteq> RouteType" "ListenerType \<noteq> EndpointType" "RouteType \<noteq> EndpointType"
  "ListenerType \<noteq> ClusterType" "RouteType \<noteq> ClusterType" "EndpointType \<noteq> ClusterType"
  "RouteType \<noteq> ListenerType" "EndpointType \<noteq> ListenerType" "EndpointType \<noteq> RouteType"
  by (simp_all add: ClusterType_def ListenerType_def RouteType_def EndpointType_def)

lemma itoa_1: "itoa 1 = ''1''"
  by (simp add: itoa_def decimal.simps digit_def)

lemma itoa_2: "itoa 2 = ''2''"
  by (simp add: itoa_def decimal.simps digit_def)

lemma itoa_80: "itoa 80 = ''80''"
  by (simp add: itoa_def decimal.simps digit_def)

lemma itoa_15002: "itoa 15002 = ''15002''"
  by (simp add: itoa_def decimal.simps digit_def)

lemma parseServiceNode_short:
  "parseServiceNode ''sidecar~10.0.0.5'' = Inl ''missing parts in the service node''"
  by (simp add: parseServiceNode_def)

lemma parse_nodeA:
  "parseServiceNode nodeA
     = Inr \<lparr>Proxy_Type = Sidecar, IPAddress = ''10.0.0.5'', ID = ''a'',
            Domain = ''ns.svc.cluster.local'', Metadata = []\<rparr>"
  by (simp add: parseServiceNode_def nodeTypeOf_def nodeA_def)

lemma nodeA_nonempty: "nodeA \<noteq> []"
  by (simp add: nodeA_def)

subsection \<open>What the helpers of the stream loop leave alone\<close>

lemma updCon_simps:
  "conns (updCon p f s) q = (if q = p then f (conns s p) else conns s q)"
  "adsClients (updCon p f s) = adsClients s"
  "adsSidecarIDConnectionsMap (updCon p f s) = adsSidecarIDConnectionsMap s"
  "edsClusters (updCon p f s) = edsClusters s"
  "connectionNumber (updCon p f s) = connectionNumber s"
  "sent (updCon p f s) = sent s"
  "warnings (updCon p f s) = warnings s"
  "pushTimeouts (updCon p f s) = pushTimeouts s"
  "pushErrors (updCon p f s) = pushErrors s"
  by (simp_all add: updCon_def)

lemma addEdsCon_simps:
  "conns (addEdsCon c cid p s) = conns s"
  "adsClients (addEdsCon c cid p s) = adsClients s"
  "sent (addEdsCon c cid p s) = sent s"
  by (simp_all add: addEdsCon_def)

lemma fold_addEdsCon_simps:
  "conns (fold (\<lambda>c. addEdsCon c cid p) cs s) = conns s"
  "adsClients (fold (\<lambda>c. addEdsCon c cid p) cs s) = adsClients s"
  "sent (fold (\<lambda>c. addEdsCon c cid p) cs s) = sent s"
  by (induction cs arbitrary: s) (simp_all add: addEdsCon_simps)

lemma addCon_simps:
  "conns (addCon cid p s) = conns s"
  "sent (addCon cid p s) = sent s"
  "edsClusters (addCon cid p s) = edsClusters s"
  "adsClients (addCon cid p s) = AList.update cid p (adsClients s)"
  by (simp_all add: addCon_def Let_def split: option.splits)

lemma register_simps:
  "sent (register p s) = sent s"
  "edsClusters (register p s) = edsClusters s"
  "conns (register p s) q = (if q = p then (conns s p)\<lparr>added := True\<rparr> else conns s q)"
  "adsClients (register p s) =
     (if added (conns s p) then adsClients s else AList.update (ConID (conns s p)) p (adsClients s))"
  by (auto simp add: register_def addCon_simps updCon_simps)

lemma handleRequest_dispatch:
  "Node req = Some node \<Longrightarrow> Id node \<noteq> [] \<Longrightarrow> ParseServiceNode env (Id node) = Inr nt \<Longrightarrow>
   handleRequest env p req s = dispatch env p req (Id node) (prepared env p node nt s)"
  by (simp add: handleRequest_def prepared_def Let_def)

lemma prepared_simps:
  "sent (prepared env p node nt s) = sent s"
  "adsClients (prepared env p node nt s) = adsClients s"
  "edsClusters (prepared env p node nt s) = edsClusters s"
  "Clusters (conns (prepared env p node nt s) p) = Clusters (conns s p)"
  "Routes (conns (prepared env p node nt s) p) = Routes (conns s p)"
  "CDSWatch (conns (prepared env p node nt s) p) = CDSWatch (conns s p)"
  "LDSWatch (conns (prepared env p node nt s) p) = LDSWatch (conns s p)"
  "added (conns (prepared env p node nt s) p) = added (conns s p)"
  "modelNode (conns (prepared env p node nt s) p) \<noteq> None"
  "ConID (conns (prepared env p node nt s) p) =
     (if ConID (conns s p) = [] then Id node @ ''-'' @ itoa (int (connectionNumber s + 1)) else ConID (conns s p))"
  by (simp_all add: prepared_def Let_def updCon_simps connectionID_def split: prod.splits)

subsection \<open>The concrete states\<close>

lemmas eval_stream =
  StreamAggregatedResources_def stateAfter_def streamStep_def handleRequest_def dispatch_def
  request_def quietEnv_def edsFailsEnv_def cdsFailsEnv_def emptyServer_def newXdsConnection_def
  updCon_def connectionID_def pushEds_def pushCds_def pushLds_def pushRoute_def send_def
  routeDiscoveryResponse_def register_def addCon_def addEdsCon_def edsEntry_def teardown_def
  removeCon_def removeEdsCon_def
  parseServiceNode_def nodeTypeOf_def nodeA_def nodeB_def typeurl_distinct itoa_1 itoa_2 Let_def
  bump_def timeZero_def

lemma edsWatcher_conn:
  "conns edsWatcher 7 =
     \<lparr>PeerAddr = ''10.0.0.5:4000'', Connect = 0, ConID = ''sidecar~10.0.0.5~a~ns.svc.cluster.local-1'',
      modelNode = Some \<lparr>Proxy_Type = Sidecar, IPAddress = ''10.0.0.5'', ID = ''a'',
                         Domain = ''ns.svc.cluster.local'', Metadata = []\<rparr>,
      RouteConfigs = [], Clusters = [''a'', ''b''], Routes = [], LDSWatch = False, CDSWatch = False,
      added = True, LastPush = 0, LastPushFailure = 0, doneClosed = False\<rparr>"
  by (simp add: edsWatcher_def eval_stream)


lemma cdsClient_conn:
  "conns cdsClient 7 =
     \<lparr>PeerAddr = ''10.0.0.5:4000'', Connect = 0, ConID = ''sidecar~10.0.0.5~a~ns.svc.cluster.local-1'',
      modelNode = Some \<lparr>Proxy_Type = Sidecar, IPAddress = ''10.0.0.5'', ID = ''a'',
                         Domain = ''ns.svc.cluster.local'', Metadata = []\<rparr>,
      RouteConfigs = [], Clusters = [], Routes = [], LDSWatch = False, CDSWatch = True,
      added = True, LastPush = 0, LastPushFailure = 0, doneClosed = False\<rparr>"
  by (simp add: cdsClient_def eval_stream)

lemma cdsClient_fields:
  "adsClients cdsClient = [(''sidecar~10.0.0.5~a~ns.svc.cluster.local-1'', 7)]"
  "pushErrors cdsClient k = 0"
  "pushTimeouts cdsClient = 0"
  by (simp_all add: cdsClient_def eval_stream)

lemma fullWatcher_conn:
  "conns fullWatcher 7 =
     \<lparr>PeerAddr = ''10.0.0.5:4000'', Connect = 0, ConID = ''sidecar~10.0.0.5~a~ns.svc.cluster.local-1'',
      modelNode = Some \<lparr>Proxy_Type = Sidecar, IPAddress = ''10.0.0.5'', ID = ''a'',
                         Domain = ''ns.svc.cluster.local'', Metadata = []\<rparr>,
      RouteConfigs = [(''80'', ''80'')], Clusters = [''outbound|80||a.ns.svc.cluster.local''],
      Routes = [''80''], LDSWatch = True, CDSWatch = True,
      added = True, LastPush = 0, LastPushFailure = 0, doneClosed = False\<rparr>"
  by (simp add: fullWatcher_def eval_stream)

lemma stuckOnce_conn:
  "conns stuckOnce 7 = (conns cdsClient 7)\<lparr>LastPushFailure := 5 * Second\<rparr>"
  by (simp add: stuckOnce_def adsPushAll_def cdsClient_fields pushClient_def updCon_def IsZero_def
        cdsClient_conn Let_def)

lemma stuckOnce_fields:
  "pushErrors stuckOnce ''short'' = 1" "pushErrors stuckOnce ''long'' = 0" "pushTimeouts stuckOnce = 1"
  by (simp_all add: stuckOnce_def adsPushAll_def cdsClient_fields pushClient_def updCon_def IsZero_def
        cdsClient_conn Let_def bump_def)

subsection \<open>Node ids\<close>

text \<open>
  C5. What the loop does with the node of an inbound request, for every request. A request
  that carries no node makes the step panic, and the stream loop with it: the code reads
  \<^verbatim>\<open>discReq.Node.Id\<close> through the nil pointer, so this request is neither logged nor
  skipped. A request whose node has an empty id is skipped: the step leaves the state as
  it is and the loop goes on with the next event. A request whose node id is not empty and
  does not parse ends the stream: the step returns the parser's error, and the loop
  returns it after the deferred teardown. The parser is any function.
\<close>

theorem node_id_error_handling:
  "(Node discReq = None \<longrightarrow>
      handleRequest env p discReq s = Panic
      \<and> streamLoop p ((env, Request discReq) # evs) s = Panic)
   \<and> (\<forall>node. Node discReq = Some node \<longrightarrow>
        (Id node = [] \<longrightarrow>
           handleRequest env p discReq s = Continue s
           \<and> streamLoop p ((env, Request discReq) # evs) s = streamLoop p evs s)
        \<and> (\<forall>err. Id node \<noteq> [] \<and> ParseServiceNode env (Id node) = Inl err \<longrightarrow>
           handleRequest env p discReq s = Return (Some err) s
           \<and> streamLoop p ((env, Request discReq) # evs) s = Return (Some err) (teardown p s)))"
  by (simp add: handleRequest_def streamStep_def)

theorem node_id_error_handling_witness:
  "streamLoop 7 [(quietEnv, Request nodelessRequest), (quietEnv, Closed None)] emptyServer = Panic
   \<and> handleRequest quietEnv 7 nodelessRequest emptyServer = Panic
   \<and> streamLoop 7 [(quietEnv, Request (request [] ClusterType [])), (quietEnv, Closed None)] emptyServer
     = Return None (teardown 7 emptyServer)
   \<and> streamLoop 7 [(quietEnv, Request (request ''sidecar~10.0.0.5'' ClusterType []))] emptyServer
     = Return (Some ''missing parts in the service node'') (teardown 7 emptyServer)"
  using node_id_error_handling [where discReq = nodelessRequest and env = quietEnv and p = 7
          and s = emptyServer and evs = "[(quietEnv, Closed None)]"]
        node_id_error_handling [where discReq = "request [] ClusterType []" and env = quietEnv
          and p = 7 and s = emptyServer and evs = "[(quietEnv, Closed None)]"]
        node_id_error_handling [where discReq = "request ''sidecar~10.0.0.5'' ClusterType []"
          and env = quietEnv and p = 7 and s = emptyServer and evs = "[]"]
  by (simp add: nodelessRequest_def request_def quietEnv_def parseServiceNode_short streamStep_def)

subsection \<open>EDS requests on an established watch\<close>

text \<open>
  C2, as the code has it. A connection watches a non-empty list of clusters and receives
  an EDS request with a node id that parses. If the request names as many clusters as
  the connection watches, or none, it is an ACK whatever the names are: nothing is sent
  and the watched list stays. If it names a different, non-zero number of clusters, the
  watched list becomes the names of the request and exactly one response is sent, an EDS
  response for the new list; when that push fails the step returns its error and nothing
  is sent.
\<close>

theorem eds_request_pushes:
  assumes node: "Node req = Some node" "Id node \<noteq> []" "ParseServiceNode env (Id node) = Inr nt"
      and eds: "TypeUrl req = EndpointType"
      and watch: "Clusters (conns s p) \<noteq> []"
  shows "(length (ResourceNames req) = length (Clusters (conns s p)) \<or> ResourceNames req = [] \<longrightarrow>
            (\<exists>s'. handleRequest env p req s = Continue s' \<and> sent s' = sent s
                  \<and> Clusters (conns s' p) = Clusters (conns s p)))
         \<and> (length (ResourceNames req) \<noteq> length (Clusters (conns s p)) \<and> ResourceNames req \<noteq> [] \<longrightarrow>
            (pushEdsErr env = None \<longrightarrow>
               (\<exists>s'. handleRequest env p req s = Continue s'
                     \<and> sent s' = sent s @ [(p, Response EndpointType (ResourceNames req))]
                     \<and> Clusters (conns s' p) = ResourceNames req))
            \<and> (\<forall>err. pushEdsErr env = Some err \<longrightarrow>
               (\<exists>s'. handleRequest env p req s = Return (Some err) s' \<and> sent s' = sent s)))"
  using eds watch
  by (auto simp add: handleRequest_dispatch [OF node] dispatch_def Let_def typeurl_distinct
        prepared_simps pushEds_def register_simps updCon_simps fold_addEdsCon_simps)

text \<open>
  C2 as stated fails: a stream asks for the clusters a and b, then for a and c. The second
  request changes one element and keeps the length, so it is taken for an ACK: the only
  response sent is the one for a and b, and the connection still watches a and b.
\<close>

theorem same_length_change_not_pushed:
  "sent (stateAfter [(quietEnv, Request (request nodeA EndpointType [''a'', ''b''])),
                     (quietEnv, Request (request nodeA EndpointType [''a'', ''c'']))])
     = [(7, Response EndpointType [''a'', ''b''])]
   \<and> Clusters (conns (stateAfter [(quietEnv, Request (request nodeA EndpointType [''a'', ''b''])),
                                   (quietEnv, Request (request nodeA EndpointType [''a'', ''c'']))]) 7)
     = [''a'', ''b'']"
  by (simp add: eval_stream)

theorem eds_request_pushes_witness:
  "(\<exists>s'. handleRequest quietEnv 7 (request nodeA EndpointType [''a'', ''c'']) edsWatcher = Continue s'
         \<and> sent s' = sent edsWatcher \<and> Clusters (conns s' 7) = [''a'', ''b''])
   \<and> (\<exists>s'. handleRequest quietEnv 7 (request nodeA EndpointType [''a'', ''b'', ''c'']) edsWatcher = Continue s'
         \<and> sent s' = sent edsWatcher @ [(7, Response EndpointType [''a'', ''b'', ''c''])]
         \<and> Clusters (conns s' 7) = [''a'', ''b'', ''c''])
   \<and> (\<exists>s'. handleRequest edsFailsEnv 7 (request nodeA EndpointType [''a'', ''b'', ''c'']) edsWatcher
              = Return (Some ''eds send failure'') s'
         \<and> sent s' = sent edsWatcher)"
proof -
  let ?node = "\<lparr>Id = nodeA, NodeMetadata = []\<rparr>"
  let ?nt = "\<lparr>Proxy_Type = Sidecar, IPAddress = ''10.0.0.5'', ID = ''a'',
              Domain = ''ns.svc.cluster.local'', Metadata = []\<rparr>"
  have n: "Node (request nodeA EndpointType names) = Some ?node" for names
    by (simp add: request_def)
  have i: "Id ?node \<noteq> []" by (simp add: nodeA_nonempty)
  have pq: "ParseServiceNode quietEnv (Id ?node) = Inr ?nt" by (simp add: quietEnv_def parse_nodeA)
  have pf: "ParseServiceNode edsFailsEnv (Id ?node) = Inr ?nt"
    by (simp add: edsFailsEnv_def quietEnv_def parse_nodeA)
  have t: "TypeUrl (request nodeA EndpointType names) = EndpointType" for names
    by (simp add: request_def)
  have w: "Clusters (conns edsWatcher 7) \<noteq> []" by (simp add: edsWatcher_conn)
  from eds_request_pushes [OF n i pq t w, of "[''a'', ''c'']"]
       eds_request_pushes [OF n i pq t w, of "[''a'', ''b'', ''c'']"]
       eds_request_pushes [OF n i pf t w, of "[''a'', ''b'', ''c'']"]
  show ?thesis
    by (simp add: request_def quietEnv_def edsFailsEnv_def edsWatcher_conn)
qed

subsection \<open>Push signals\<close>

lemma watch_responseOf:
  "watch p s' = watch p s \<Longrightarrow> responseOf env (conns s' p) t = responseOf env (conns s p) t"
  by (simp add: watch_def responseOf_def)

lemma watchedTypes_known: "set (watchedTypes con) \<subseteq> knownTypes"
  by (auto simp add: watchedTypes_def knownTypes_def)

lemma pushStage_Cluster:
  "modelNode (conns s p) \<noteq> None \<Longrightarrow>
   (case pushStage env p ClusterType s of
      Continue s' \<Rightarrow> pushError env ClusterType = None \<and> watch p s' = watch p s
                     \<and> sent s' = sent s @ [(p, responseOf env (conns s p) ClusterType)]
    | Return e s' \<Rightarrow> e \<noteq> None \<and> pushError env ClusterType = e \<and> sent s' = sent s
    | Panic \<Rightarrow> False)"
  by (simp add: pushStage_def pushCds_def pushError_def responseOf_def watch_def typeurl_distinct
        split: option.splits)

lemma pushStage_Listener:
  "modelNode (conns s p) \<noteq> None \<Longrightarrow>
   (case pushStage env p ListenerType s of
      Continue s' \<Rightarrow> pushError env ListenerType = None \<and> watch p s' = watch p s
                     \<and> sent s' = sent s @ [(p, responseOf env (conns s p) ListenerType)]
    | Return e s' \<Rightarrow> e \<noteq> None \<and> pushError env ListenerType = e \<and> sent s' = sent s
    | Panic \<Rightarrow> False)"
  by (simp add: pushStage_def pushLds_def pushError_def responseOf_def watch_def typeurl_distinct
        split: option.splits)

lemma pushStage_Endpoint:
  "modelNode (conns s p) \<noteq> None \<Longrightarrow>
   (case pushStage env p EndpointType s of
      Continue s' \<Rightarrow> pushError env EndpointType = None \<and> watch p s' = watch p s
                     \<and> sent s' = sent s @ [(p, responseOf env (conns s p) EndpointType)]
    | Return e s' \<Rightarrow> e \<noteq> None \<and> pushError env EndpointType = e \<and> sent s' = sent s
    | Panic \<Rightarrow> False)"
  by (simp add: pushStage_def pushEds_def pushError_def responseOf_def watch_def typeurl_distinct
        split: option.splits)

lemma pushStage_Route:
  "modelNode (conns s p) \<noteq> None \<Longrightarrow>
   (case pushStage env p RouteType s of
      Continue s' \<Rightarrow> pushError env RouteType = None \<and> watch p s' = watch p s
                     \<and> sent s' = sent s @ [(p, responseOf env (conns s p) RouteType)]
    | Return e s' \<Rightarrow> e \<noteq> None \<and> pushError env RouteType = e \<and> sent s' = sent s
    | Panic \<Rightarrow> False)"
  by (auto simp add: pushStage_def pushRoute_def send_def pushError_def responseOf_def watch_def
        updCon_def routeDiscoveryResponse_def Let_def typeurl_distinct
        split: option.splits send_outcome.splits)

lemma pushStage_result:
  assumes "modelNode (conns s p) \<noteq> None" and "t \<in> knownTypes"
  shows "case pushStage env p t s of
           Continue s' \<Rightarrow> pushError env t = None \<and> watch p s' = watch p s
                          \<and> sent s' = sent s @ [(p, responseOf env (conns s p) t)]
         | Return e s' \<Rightarrow> e \<noteq> None \<and> pushError env t = e \<and> sent s' = sent s
         | Panic \<Rightarrow> False"
  using assms(2) pushStage_Cluster [OF assms(1)] pushStage_Listener [OF assms(1)]
    pushStage_Endpoint [OF assms(1)] pushStage_Route [OF assms(1)]
  unfolding knownTypes_def by blast

lemma runStages_result:
  "modelNode (conns s p) \<noteq> None \<Longrightarrow> set ts \<subseteq> knownTypes \<Longrightarrow>
   (case runStages env p ts s of
      Continue s' \<Rightarrow> (\<forall>t \<in> set ts. pushError env t = None) \<and> watch p s' = watch p s
                     \<and> sent s' = sent s @ map (\<lambda>t. (p, responseOf env (conns s p) t)) ts
    | Return e s' \<Rightarrow> e \<noteq> None \<and> (\<exists>t \<in> set ts. pushError env t \<noteq> None)
                     \<and> sent s' = sent s @ map (\<lambda>t. (p, responseOf env (conns s p) t))
                                            (takeWhile (\<lambda>t. pushError env t = None) ts)
    | Panic \<Rightarrow> False)"
proof (induction ts arbitrary: s)
  case Nil
  then show ?case by simp
next
  case (Cons t ts)
  have known: "t \<in> knownTypes" "set ts \<subseteq> knownTypes" using Cons.prems(2) by simp_all
  note st = pushStage_result [OF Cons.prems(1) known(1), where env = env]
  show ?case
  proof (cases "pushStage env p t s")
    case (Continue s1)
    with st have ok: "pushError env t = None" and w: "watch p s1 = watch p s"
      and snt: "sent s1 = sent s @ [(p, responseOf env (conns s p) t)]" by simp_all
    from w Cons.prems(1) have "modelNode (conns s1 p) \<noteq> None" by (simp add: watch_def)
    from Cons.IH [OF this known(2)] show ?thesis
      using Continue ok w snt
      by (cases "runStages env p ts s1") (simp_all add: watch_responseOf [OF w])
  next
    case (Return e s1)
    with st show ?thesis by auto
  next
    case Panic
    with st show ?thesis by simp
  qed
qed

lemma andThen_cong:
  "(\<And>s1. r = Continue s1 \<Longrightarrow> f s1 = g s1) \<Longrightarrow> andThen r f = andThen r g"
  by (cases r) simp_all

lemma optStage:
  "runStages env p (if b then [t] else []) s = (if b then pushStage env p t s else Continue s)"
  by (cases "pushStage env p t s") simp_all

lemma runStages_append:
  "runStages env p (ts @ us) s = andThen (runStages env p ts s) (runStages env p us)"
proof (induction ts arbitrary: s)
  case Nil
  then show ?case by simp
next
  case (Cons t ts)
  then show ?case by (cases "pushStage env p t s") simp_all
qed

lemma runStages_watch:
  "modelNode (conns s p) \<noteq> None \<Longrightarrow> set ts \<subseteq> knownTypes \<Longrightarrow> runStages env p ts s = Continue s1 \<Longrightarrow>
   watch p s1 = watch p s"
  using runStages_result [of s p ts env] by simp

lemma handlePush_stages:
  assumes m: "modelNode (conns s p) \<noteq> None"
  shows "handlePush env p s = runStages env p (watchedTypes (conns s p)) s"
proof -
  let ?c = "conns s p"
  let ?A = "if CDSWatch ?c then [ClusterType] else []"
  let ?B = "if length (Routes ?c) > 0 then [RouteType] else []"
  let ?C = "if length (Clusters ?c) > 0 then [EndpointType] else []"
  let ?D = "if LDSWatch ?c then [ListenerType] else []"
  have stageA: "(if CDSWatch ?c then (if modelNode ?c = None then Panic else pushCds env p s) else Continue s)
                  = runStages env p ?A s"
    by (simp add: optStage pushStage_def)
  have stepB: "(if length (Routes (conns s1 p)) > 0 then pushRoute env p s1 else Continue s1)
                  = runStages env p ?B s1" if "watch p s1 = watch p s" for s1
    using that by (simp add: optStage pushStage_def watch_def typeurl_distinct)
  have stepC: "(if length (Clusters (conns s2 p)) > 0 then pushEds env p s2 else Continue s2)
                  = runStages env p ?C s2" if "watch p s2 = watch p s" for s2
    using that by (simp add: optStage pushStage_def watch_def typeurl_distinct)
  have stepD: "(if LDSWatch (conns s3 p) then (if modelNode (conns s3 p) = None then Panic else pushLds env p s3)
                else Continue s3)
                  = runStages env p ?D s3" if "watch p s3 = watch p s" for s3
    using that by (simp add: optStage pushStage_def watch_def typeurl_distinct)
  have kA: "set ?A \<subseteq> knownTypes" and kB: "set ?B \<subseteq> knownTypes" and kC: "set ?C \<subseteq> knownTypes"
    by (auto simp add: knownTypes_def)
  have wA: "watch p s1 = watch p s" if "runStages env p ?A s = Continue s1" for s1
    using runStages_watch [OF m kA that] .
  have wB: "watch p s2 = watch p s" if "watch p s1 = watch p s" "runStages env p ?B s1 = Continue s2" for s1 s2
  proof -
    from that(1) m have "modelNode (conns s1 p) \<noteq> None" by (simp add: watch_def)
    from runStages_watch [OF this kB that(2)] that(1) show ?thesis by simp
  qed
  have wC: "watch p s3 = watch p s" if "watch p s2 = watch p s" "runStages env p ?C s2 = Continue s3" for s2 s3
  proof -
    from that(1) m have "modelNode (conns s2 p) \<noteq> None" by (simp add: watch_def)
    from runStages_watch [OF this kC that(2)] that(1) show ?thesis by simp
  qed
  have inner3: "andThen (if length (Clusters (conns s2 p)) > 0 then pushEds env p s2 else Continue s2)
                  (\<lambda>s3. if LDSWatch (conns s3 p)
                         then (if modelNode (conns s3 p) = None then Panic else pushLds env p s3)
                         else Continue s3)
                = runStages env p (?C @ ?D) s2" if w2: "watch p s2 = watch p s" for s2
    unfolding runStages_append stepC [OF w2]
    by (rule andThen_cong) (simp only: stepD [OF wC [OF w2]])
  have inner2: "andThen (if length (Routes (conns s1 p)) > 0 then pushRoute env p s1 else Continue s1)
                  (\<lambda>s2. andThen (if length (Clusters (conns s2 p)) > 0 then pushEds env p s2 else Continue s2)
                    (\<lambda>s3. if LDSWatch (conns s3 p)
                           then (if modelNode (conns s3 p) = None then Panic else pushLds env p s3)
                           else Continue s3))
                = runStages env p (?B @ ?C @ ?D) s1" if w1: "watch p s1 = watch p s" for s1
    unfolding runStages_append [of env p ?B] stepB [OF w1]
    by (rule andThen_cong) (simp only: inner3 [OF wB [OF w1]])
  have "handlePush env p s = runStages env p (?A @ ?B @ ?C @ ?D) s"
    unfolding handlePush_def runStages_append [of env p ?A] stageA
    by (rule andThen_cong) (simp only: inner2 [OF wA])
  then show ?thesis by (simp only: watchedTypes_def)
qed

text \<open>
  C3. On a push signal, for a connection whose node is set: if the push of every watched
  type succeeds, the loop goes on and exactly one response has been sent for each watched
  type (CDS if \<^verbatim>\<open>CDSWatch\<close>, RDS if there are routes, EDS if there are clusters, LDS
  if \<^verbatim>\<open>LDSWatch\<close>), in the order CDS, RDS, EDS, LDS. If the push of a watched type
  fails, the responses of the types before the first failing one have been sent, the step
  returns the error and the stream loop ends with it.
\<close>

theorem push_signal:
  assumes "modelNode (conns s p) \<noteq> None"
  shows "((\<forall>t \<in> set (watchedTypes (conns s p)). pushError env t = None) \<longrightarrow>
            (\<exists>s'. handlePush env p s = Continue s'
                  \<and> sent s' = sent s @ map (\<lambda>t. (p, responseOf env (conns s p) t)) (watchedTypes (conns s p))
                  \<and> streamLoop p ((env, PushSignal) # evs) s = streamLoop p evs s'))
         \<and> ((\<exists>t \<in> set (watchedTypes (conns s p)). pushError env t \<noteq> None) \<longrightarrow>
            (\<exists>err s'. handlePush env p s = Return (Some err) s'
                  \<and> sent s' = sent s @ map (\<lambda>t. (p, responseOf env (conns s p) t))
                                         (takeWhile (\<lambda>t. pushError env t = None) (watchedTypes (conns s p)))
                  \<and> streamLoop p ((env, PushSignal) # evs) s = Return (Some err) (teardown p s')))"
  using runStages_result [OF assms watchedTypes_known [of "conns s p"], where env = env]
  by (cases "runStages env p (watchedTypes (conns s p)) s")
     (auto simp add: handlePush_stages [OF assms] streamStep_def)

theorem push_signal_witness:
  "(\<exists>s'. handlePush quietEnv 7 fullWatcher = Continue s'
         \<and> sent s' = sent fullWatcher
              @ [(7, Response ClusterType []), (7, Response RouteType [''80'']),
                 (7, Response EndpointType [''outbound|80||a.ns.svc.cluster.local'']),
                 (7, Response ListenerType [])])
   \<and> (\<exists>err s'. handlePush edsFailsEnv 7 fullWatcher = Return (Some err) s'
         \<and> sent s' = sent fullWatcher @ [(7, Response ClusterType []), (7, Response RouteType [''80''])]
         \<and> streamLoop 7 [(edsFailsEnv, PushSignal)] fullWatcher = Return (Some err) (teardown 7 s'))"
proof -
  have m: "modelNode (conns fullWatcher 7) \<noteq> None" by (simp add: fullWatcher_conn)
  have w: "watchedTypes (conns fullWatcher 7) = [ClusterType, RouteType, EndpointType, ListenerType]"
    by (simp add: watchedTypes_def fullWatcher_conn)
  have okq: "pushError quietEnv t = None" for t
    by (simp add: pushError_def quietEnv_def)
  have okf: "pushError edsFailsEnv ClusterType = None" "pushError edsFailsEnv RouteType = None"
    "pushError edsFailsEnv EndpointType = Some ''eds send failure''"
    by (simp_all add: pushError_def edsFailsEnv_def quietEnv_def typeurl_distinct)
  have r: "responseOf env (conns fullWatcher 7) ClusterType = Response ClusterType []"
    "responseOf env (conns fullWatcher 7) ListenerType = Response ListenerType []"
    "responseOf env (conns fullWatcher 7) EndpointType
       = Response EndpointType [''outbound|80||a.ns.svc.cluster.local'']"
    "responseOf env (conns fullWatcher 7) RouteType = Response RouteType [BuildRouteConfig env ''80'']"
    for env
    by (simp_all add: responseOf_def fullWatcher_conn typeurl_distinct)
  have b: "BuildRouteConfig quietEnv x = x" "BuildRouteConfig edsFailsEnv x = x" for x
    by (simp_all add: quietEnv_def edsFailsEnv_def)
  from push_signal [OF m, of quietEnv "[]"] have first: "\<exists>s'. handlePush quietEnv 7 fullWatcher = Continue s'
         \<and> sent s' = sent fullWatcher
              @ [(7, Response ClusterType []), (7, Response RouteType [''80'']),
                 (7, Response EndpointType [''outbound|80||a.ns.svc.cluster.local'']),
                 (7, Response ListenerType [])]"
    by (auto simp add: w okq r b)
  from push_signal [OF m, of edsFailsEnv "[]"]
  have second: "\<exists>err s'. handlePush edsFailsEnv 7 fullWatcher = Return (Some err) s'
         \<and> sent s' = sent fullWatcher @ [(7, Response ClusterType []), (7, Response RouteType [''80''])]
         \<and> streamLoop 7 [(edsFailsEnv, PushSignal)] fullWatcher = Return (Some err) (teardown 7 s')"
    by (auto simp add: w okf r b)
  from first second show ?thesis by blast
qed

subsection \<open>Registration\<close>

lemma dispatch_fresh_known:
  assumes fresh: "\<not> CDSWatch (conns s p)" "\<not> LDSWatch (conns s p)" "Routes (conns s p) = []"
                 "Clusters (conns s p) = []" "\<not> added (conns s p)"
      and m: "modelNode (conns s p) \<noteq> None"
      and t: "TypeUrl req \<in> knownTypes"
  shows "(pushError env (TypeUrl req) = None \<longrightarrow>
            (\<exists>s'. dispatch env p req nodeId s = Continue s' \<and> added (conns s' p)
                  \<and> map_of (adsClients s') (ConID (conns s p)) = Some p
                  \<and> ConID (conns s' p) = ConID (conns s p)))
         \<and> (pushError env (TypeUrl req) \<noteq> None \<longrightarrow>
            (\<exists>err s'. dispatch env p req nodeId s = Return (Some err) s' \<and> \<not> added (conns s' p)
                  \<and> adsClients s' = adsClients s))"
proof -
  consider "TypeUrl req = ClusterType" | "TypeUrl req = ListenerType" | "TypeUrl req = RouteType"
    | "TypeUrl req = EndpointType"
    using t by (auto simp add: knownTypes_def)
  then show ?thesis
  proof cases
    case 1
    then show ?thesis using fresh
      by (auto simp add: dispatch_def pushCds_def pushError_def register_simps updCon_simps
            AList.update_conv' split: option.splits)
  next
    case 2
    then show ?thesis using fresh
      by (auto simp add: dispatch_def pushLds_def pushError_def register_simps updCon_simps
            typeurl_distinct AList.update_conv' split: option.splits)
  next
    case 3
    then show ?thesis using fresh m
      by (auto simp add: dispatch_def pushRoute_def send_def pushError_def register_simps updCon_def
            typeurl_distinct AList.update_conv' Let_def addCon_simps
            split: option.splits send_outcome.splits)
  next
    case 4
    then show ?thesis using fresh
      by (auto simp add: dispatch_def pushEds_def pushError_def register_simps updCon_simps
            typeurl_distinct AList.update_conv' fold_addEdsCon_simps Let_def split: option.splits)
  qed
qed

lemma dispatch_unknown:
  assumes "TypeUrl req \<notin> knownTypes"
  shows "dispatch env p req nodeId s
           = Continue (register p (s\<lparr>warnings := warnings s @ [''ADS: Unknown watched resources'']\<rparr>))"
  using assms by (simp add: dispatch_def knownTypes_def)

lemma dispatch_added:
  assumes "added (conns s p)" and "dispatch env p req nodeId s = Continue s'"
  shows "adsClients s' = adsClients s"
  using assms
  by (auto simp add: dispatch_def pushCds_def pushLds_def pushEds_def pushRoute_def send_def
        register_def updCon_def fold_addEdsCon_simps Let_def
        split: if_splits option.splits send_outcome.splits)

text \<open>
  C9, as the code has it. The first request with a node id that parses finds the
  connection as \<^verbatim>\<open>newXdsConnection\<close> made it. If its type is one of the four known
  ones and the push of that type succeeds, or if its type is unknown, the step goes on
  with the connection registered under its id; an unknown type is logged, sends nothing
  and starts no watch, and registers the connection all the same. If the push fails, the
  step returns the error and the connection is not registered. A request on a connection
  that is registered leaves the registry as it is.
\<close>

theorem registration_on_first_request:
  assumes node: "Node req = Some node" "Id node \<noteq> []" "ParseServiceNode env (Id node) = Inr nt"
  shows "(conns s p = newXdsConnection peerAddr now \<longrightarrow>
            ((TypeUrl req \<in> knownTypes \<longrightarrow> pushError env (TypeUrl req) = None) \<longrightarrow>
               (\<exists>s'. handleRequest env p req s = Continue s' \<and> added (conns s' p)
                     \<and> map_of (adsClients s') (ConID (conns s' p)) = Some p))
            \<and> (TypeUrl req \<in> knownTypes \<and> pushError env (TypeUrl req) \<noteq> None \<longrightarrow>
               (\<exists>err s'. handleRequest env p req s = Return (Some err) s' \<and> \<not> added (conns s' p)
                     \<and> adsClients s' = adsClients s))
            \<and> (TypeUrl req \<notin> knownTypes \<longrightarrow>
               (\<exists>s'. handleRequest env p req s = Continue s' \<and> sent s' = sent s
                     \<and> watchedTypes (conns s' p) = [])))
         \<and> (added (conns s p) \<longrightarrow>
            (\<forall>s'. handleRequest env p req s = Continue s' \<longrightarrow> adsClients s' = adsClients s))"
proof (intro conjI impI)
  assume fresh: "conns s p = newXdsConnection peerAddr now"
  let ?s = "prepared env p node nt s"
  have f: "\<not> CDSWatch (conns ?s p)" "\<not> LDSWatch (conns ?s p)" "Routes (conns ?s p) = []"
          "Clusters (conns ?s p) = []" "\<not> added (conns ?s p)" "modelNode (conns ?s p) \<noteq> None"
    by (simp_all add: prepared_simps fresh newXdsConnection_def)
  {
    assume ok: "TypeUrl req \<in> knownTypes \<longrightarrow> pushError env (TypeUrl req) = None"
    show "\<exists>s'. handleRequest env p req s = Continue s' \<and> added (conns s' p)
               \<and> map_of (adsClients s') (ConID (conns s' p)) = Some p"
    proof (cases "TypeUrl req \<in> knownTypes")
      case True
      with ok dispatch_fresh_known [OF f True, of env "Id node"] show ?thesis
        by (auto simp add: handleRequest_dispatch [OF node])
    next
      case False
      then show ?thesis
        by (simp add: handleRequest_dispatch [OF node] dispatch_unknown register_simps f
              AList.update_conv')
    qed
  }
  {
    assume "TypeUrl req \<in> knownTypes \<and> pushError env (TypeUrl req) \<noteq> None"
    with dispatch_fresh_known [OF f, of req env "Id node"]
    show "\<exists>err s'. handleRequest env p req s = Return (Some err) s' \<and> \<not> added (conns s' p)
               \<and> adsClients s' = adsClients s"
      by (auto simp add: handleRequest_dispatch [OF node] prepared_simps)
  }
  {
    assume "TypeUrl req \<notin> knownTypes"
    then show "\<exists>s'. handleRequest env p req s = Continue s' \<and> sent s' = sent s
               \<and> watchedTypes (conns s' p) = []"
      using f
      by (simp add: handleRequest_dispatch [OF node] dispatch_unknown register_simps prepared_simps
            watchedTypes_def)
  }
next
  assume a: "added (conns s p)"
  show "\<forall>s'. handleRequest env p req s = Continue s' \<longrightarrow> adsClients s' = adsClients s"
    using dispatch_added [of "prepared env p node nt s" p env req "Id node"] a
    by (simp add: handleRequest_dispatch [OF node] prepared_simps)
qed

text \<open>
  C9 as stated fails: the first request of a stream has a type URL that is not known. It
  is logged and nothing is sent, and the connection is in the registry afterwards.
\<close>

theorem unknown_type_registers:
  "adsClients (stateAfter [(quietEnv, Request (request nodeA ''type.googleapis.com/envoy.api.v2.Unknown'' []))])
     = [(''sidecar~10.0.0.5~a~ns.svc.cluster.local-1'', 7)]
   \<and> added (conns (stateAfter [(quietEnv, Request (request nodeA ''type.googleapis.com/envoy.api.v2.Unknown'' []))]) 7)
   \<and> sent (stateAfter [(quietEnv, Request (request nodeA ''type.googleapis.com/envoy.api.v2.Unknown'' []))]) = []"
  by (simp add: eval_stream ClusterType_def ListenerType_def RouteType_def EndpointType_def)

theorem registration_on_first_request_witness:
  "(\<exists>s'. handleRequest quietEnv 7 (request nodeA ClusterType []) emptyServer = Continue s'
         \<and> added (conns s' 7) \<and> map_of (adsClients s') (ConID (conns s' 7)) = Some 7)
   \<and> (\<exists>err s'. handleRequest cdsFailsEnv 7 (request nodeA ClusterType []) emptyServer = Return (Some err) s'
         \<and> \<not> added (conns s' 7) \<and> adsClients s' = adsClients emptyServer)
   \<and> (\<exists>s'. handleRequest quietEnv 7 (request nodeA ''type.googleapis.com/envoy.api.v2.Unknown'' []) emptyServer
              = Continue s'
         \<and> added (conns s' 7) \<and> map_of (adsClients s') (ConID (conns s' 7)) = Some 7
         \<and> sent s' = sent emptyServer \<and> watchedTypes (conns s' 7) = [])
   \<and> (\<exists>s'. handleRequest quietEnv 7 (request nodeA ClusterType []) cdsClient = Continue s'
         \<and> adsClients s' = adsClients cdsClient)"
proof -
  let ?node = "\<lparr>Id = nodeA, NodeMetadata = []\<rparr>"
  let ?nt = "\<lparr>Proxy_Type = Sidecar, IPAddress = ''10.0.0.5'', ID = ''a'',
              Domain = ''ns.svc.cluster.local'', Metadata = []\<rparr>"
  let ?unknown = "''type.googleapis.com/envoy.api.v2.Unknown''"
  have n: "Node (request nodeA t names) = Some ?node" for t names
    by (simp add: request_def)
  have i: "Id ?node \<noteq> []" by (simp add: nodeA_nonempty)
  have pq: "ParseServiceNode quietEnv (Id ?node) = Inr ?nt" by (simp add: quietEnv_def parse_nodeA)
  have pf: "ParseServiceNode cdsFailsEnv (Id ?node) = Inr ?nt"
    by (simp add: cdsFailsEnv_def quietEnv_def parse_nodeA)
  have fresh: "conns emptyServer 7 = newXdsConnection [] timeZero" by (simp add: emptyServer_def)
  have t: "TypeUrl (request nodeA t names) = t" for t names by (simp add: request_def)
  have u: "?unknown \<notin> knownTypes"
    by (simp add: knownTypes_def ClusterType_def ListenerType_def RouteType_def EndpointType_def)
  have c: "ClusterType \<in> knownTypes" by (simp add: knownTypes_def)
  have eq: "pushError quietEnv ClusterType = None" by (simp add: pushError_def quietEnv_def)
  have ef: "pushError cdsFailsEnv ClusterType \<noteq> None"
    by (simp add: pushError_def cdsFailsEnv_def quietEnv_def)
  have a: "added (conns cdsClient 7)" by (simp add: cdsClient_conn)
  from registration_on_first_request [OF n [of ClusterType "[]"] i pq, where s = emptyServer and p = 7 and peerAddr = "[]" and now = timeZero] fresh eq
  have first: "\<exists>s'. handleRequest quietEnv 7 (request nodeA ClusterType []) emptyServer = Continue s'
         \<and> added (conns s' 7) \<and> map_of (adsClients s') (ConID (conns s' 7)) = Some 7"
    by (simp add: t)
  from registration_on_first_request [OF n [of ClusterType "[]"] i pf, where s = emptyServer and p = 7 and peerAddr = "[]" and now = timeZero] fresh ef c
  have second: "\<exists>err s'. handleRequest cdsFailsEnv 7 (request nodeA ClusterType []) emptyServer = Return (Some err) s'
         \<and> \<not> added (conns s' 7) \<and> adsClients s' = adsClients emptyServer"
    by (simp add: t)
  from registration_on_first_request [OF n [of ?unknown "[]"] i pq, where s = emptyServer and p = 7 and peerAddr = "[]" and now = timeZero] fresh u
  have third: "\<exists>s'. handleRequest quietEnv 7 (request nodeA ?unknown []) emptyServer = Continue s'
         \<and> added (conns s' 7) \<and> map_of (adsClients s') (ConID (conns s' 7)) = Some 7
         \<and> sent s' = sent emptyServer \<and> watchedTypes (conns s' 7) = []"
    by (auto simp add: t)
  have run: "\<exists>s'. handleRequest quietEnv 7 (request nodeA ClusterType []) cdsClient = Continue s'"
    by (simp add: handleRequest_dispatch [OF n i pq] dispatch_def prepared_simps cdsClient_conn t Let_def)
  with registration_on_first_request [OF n [of ClusterType "[]"] i pq, where s = cdsClient and p = 7] a
  have fourth: "\<exists>s'. handleRequest quietEnv 7 (request nodeA ClusterType []) cdsClient = Continue s'
         \<and> adsClients s' = adsClients cdsClient"
    by auto
  from first second third fourth show ?thesis by blast
qed

subsection \<open>The push coordinator\<close>

lemma pushClient_conns:
  "conns (pushClient sel c' s) c = (if c = c' then clientAfter sel (conns s c) else conns s c)"
  by (cases sel; cases "fst sel")
     (auto simp add: pushClient_def clientAfter_def updCon_def Let_def)

lemma pushClients_conns_other:
  "c \<notin> snd ` set tmpMap \<Longrightarrow> conns (pushClients sel tmpMap s) c = conns s c"
  by (induction tmpMap arbitrary: s) (auto simp add: pushClient_conns)

lemma pushClients_conns:
  "distinct (map snd tmpMap) \<Longrightarrow> (k, c) \<in> set tmpMap \<Longrightarrow>
   conns (pushClients sel tmpMap s) c = clientAfter (sel k) (conns s c)"
proof (induction tmpMap arbitrary: s)
  case Nil
  then show ?case by simp
next
  case (Cons kc tmpMap)
  obtain k' c' where kc: "kc = (k', c')" by (cases kc)
  show ?case
  proof (cases "(k, c) = (k', c')")
    case True
    with Cons.prems kc have "c \<notin> snd ` set tmpMap" by auto
    with True kc show ?thesis by (simp add: pushClients_conns_other pushClient_conns)
  next
    case False
    with Cons.prems kc have in_rest: "(k, c) \<in> set tmpMap" and d: "distinct (map snd tmpMap)" by auto
    from Cons.prems kc in_rest have "c \<noteq> c'" by force
    with Cons.IH [OF d in_rest] kc show ?thesis by (simp add: pushClient_conns)
  qed
qed

lemma pushClient_pushTimeouts:
  "pushTimeouts (pushClient sel c s) = pushTimeouts s + (if fst sel = TimedOut then 1 else 0)"
  by (cases sel; cases "fst sel") (auto simp add: pushClient_def updCon_def Let_def)

lemma pushClients_pushTimeouts:
  "pushTimeouts (pushClients sel tmpMap s)
     = pushTimeouts s + length (filter (\<lambda>(k, c). fst (sel k) = TimedOut) tmpMap)"
  by (induction tmpMap arbitrary: s) (auto simp add: pushClient_pushTimeouts)

lemma pushClients_append:
  "pushClients sel (xs @ ys) s = pushClients sel ys (pushClients sel xs s)"
  by (induction xs arbitrary: s) auto

text \<open>
  C4. For the connection that the broadcast visits: when the signal is sent,
  \<^verbatim>\<open>LastPush\<close> is the current time, \<^verbatim>\<open>LastPushFailure\<close> is zero and no counter
  moves; when the done channel fires nothing changes; on the deadline the push-timeout
  counter goes up by one, and then, if \<^verbatim>\<open>LastPushFailure\<close> was zero, it is set to the
  current time and the short push-error counter goes up by one, and otherwise the
  connection stays as it is and the long push-error counter goes up by one exactly when
  more than 10 seconds have passed since \<^verbatim>\<open>LastPushFailure\<close> (so only if at least 10
  seconds have passed). The loop goes on to the remaining connections after each of them:
  every connection of the registry is left as its own visit leaves it, and the
  push-timeout counter counts the visits that ran into the deadline.
\<close>

theorem broadcast_accounting:
  "conns (pushClient (PushSent, now) c s) c = (conns s c)\<lparr>LastPush := now, LastPushFailure := timeZero\<rparr>
   \<and> pushTimeouts (pushClient (PushSent, now) c s) = pushTimeouts s
   \<and> pushErrors (pushClient (PushSent, now) c s) = pushErrors s
   \<and> pushClient (DoneFired, now) c s = s
   \<and> pushTimeouts (pushClient (TimedOut, now) c s) = pushTimeouts s + 1
   \<and> (LastPushFailure (conns s c) = timeZero \<longrightarrow>
        conns (pushClient (TimedOut, now) c s) c = (conns s c)\<lparr>LastPushFailure := now\<rparr>
        \<and> pushErrors (pushClient (TimedOut, now) c s) ''short'' = pushErrors s ''short'' + 1
        \<and> pushErrors (pushClient (TimedOut, now) c s) ''long'' = pushErrors s ''long'')
   \<and> (LastPushFailure (conns s c) \<noteq> timeZero \<longrightarrow>
        conns (pushClient (TimedOut, now) c s) = conns s
        \<and> pushErrors (pushClient (TimedOut, now) c s) ''short'' = pushErrors s ''short''
        \<and> pushErrors (pushClient (TimedOut, now) c s) ''long''
            = pushErrors s ''long'' + (if now - LastPushFailure (conns s c) > 10 * Second then 1 else 0))
   \<and> (pushErrors (pushClient (TimedOut, now) c s) ''long'' \<noteq> pushErrors s ''long'' \<longrightarrow>
        now - LastPushFailure (conns s c) \<ge> 10 * Second)
   \<and> pushClients sel (before @ (k, c) # rest) s
        = pushClients sel rest (pushClient (sel k) c (pushClients sel before s))
   \<and> (distinct (map snd (adsClients s)) \<and> (k, c) \<in> set (adsClients s) \<longrightarrow>
        conns (adsPushAll sel s) c = conns (pushClient (sel k) c s) c)
   \<and> pushTimeouts (adsPushAll sel s)
        = pushTimeouts s + length (filter (\<lambda>(k, c). fst (sel k) = TimedOut) (adsClients s))"
proof -
  have snt: "conns (pushClient (PushSent, now) c s) c = (conns s c)\<lparr>LastPush := now, LastPushFailure := timeZero\<rparr>"
    "pushTimeouts (pushClient (PushSent, now) c s) = pushTimeouts s"
    "pushErrors (pushClient (PushSent, now) c s) = pushErrors s"
    by (simp_all add: pushClient_def updCon_def)
  have dn: "pushClient (DoneFired, now) c s = s"
    by (simp add: pushClient_def)
  have t1: "pushTimeouts (pushClient (TimedOut, now) c s) = pushTimeouts s + 1"
    by (simp add: pushClient_pushTimeouts)
  have t2: "LastPushFailure (conns s c) = timeZero \<longrightarrow>
        conns (pushClient (TimedOut, now) c s) c = (conns s c)\<lparr>LastPushFailure := now\<rparr>
        \<and> pushErrors (pushClient (TimedOut, now) c s) ''short'' = pushErrors s ''short'' + 1
        \<and> pushErrors (pushClient (TimedOut, now) c s) ''long'' = pushErrors s ''long''"
    by (simp add: pushClient_def updCon_def Let_def IsZero_def timeZero_def bump_def)
  have t3: "LastPushFailure (conns s c) \<noteq> timeZero \<longrightarrow>
        conns (pushClient (TimedOut, now) c s) = conns s
        \<and> pushErrors (pushClient (TimedOut, now) c s) ''short'' = pushErrors s ''short''
        \<and> pushErrors (pushClient (TimedOut, now) c s) ''long''
            = pushErrors s ''long'' + (if now - LastPushFailure (conns s c) > 10 * Second then 1 else 0)"
    by (simp add: pushClient_def updCon_def Let_def IsZero_def timeZero_def bump_def)
  have t4: "pushErrors (pushClient (TimedOut, now) c s) ''long'' \<noteq> pushErrors s ''long'' \<longrightarrow>
        now - LastPushFailure (conns s c) \<ge> 10 * Second"
    by (simp add: pushClient_def updCon_def Let_def IsZero_def timeZero_def bump_def)
  have l1: "pushClients sel (before @ (k, c) # rest) s
        = pushClients sel rest (pushClient (sel k) c (pushClients sel before s))"
    by (simp add: pushClients_append)
  have l2: "distinct (map snd (adsClients s)) \<and> (k, c) \<in> set (adsClients s) \<longrightarrow>
        conns (adsPushAll sel s) c = conns (pushClient (sel k) c s) c"
    by (simp add: adsPushAll_def pushClients_conns pushClient_conns)
  have l3: "pushTimeouts (adsPushAll sel s)
        = pushTimeouts s + length (filter (\<lambda>(k, c). fst (sel k) = TimedOut) (adsClients s))"
    by (simp add: adsPushAll_def pushClients_pushTimeouts)
  from snt dn t1 t2 t3 t4 l1 l2 l3 show ?thesis by blast
qed

theorem broadcast_accounting_witness:
  "LastPushFailure (conns (pushClient (TimedOut, 5 * Second) 7 cdsClient) 7) = 5 * Second
   \<and> pushErrors (pushClient (TimedOut, 5 * Second) 7 cdsClient) ''short'' = 1
   \<and> pushErrors (pushClient (TimedOut, 5 * Second) 7 cdsClient) ''long'' = 0
   \<and> pushTimeouts (pushClient (TimedOut, 5 * Second) 7 cdsClient) = 1
   \<and> conns (pushClient (TimedOut, 15 * Second) 7 stuckOnce) = conns stuckOnce
   \<and> pushErrors (pushClient (TimedOut, 15 * Second) 7 stuckOnce) ''short'' = 1
   \<and> pushErrors (pushClient (TimedOut, 15 * Second) 7 stuckOnce) ''long'' = 0
   \<and> pushErrors (pushClient (TimedOut, 16 * Second) 7 stuckOnce) ''long'' = 1
   \<and> 10 * Second \<le> 16 * Second - LastPushFailure (conns stuckOnce 7)
   \<and> LastPush (conns (pushClient (PushSent, 20 * Second) 7 stuckOnce) 7) = 20 * Second
   \<and> LastPushFailure (conns (pushClient (PushSent, 20 * Second) 7 stuckOnce) 7) = timeZero
   \<and> pushClient (DoneFired, 20 * Second) 7 stuckOnce = stuckOnce
   \<and> conns stuckOnce 7 = conns (pushClient (TimedOut, 5 * Second) 7 cdsClient) 7
   \<and> pushTimeouts stuckOnce = 1"
proof -
  let ?k = "''sidecar~10.0.0.5~a~ns.svc.cluster.local-1''"
  let ?sel = "\<lambda>k::string. (TimedOut, 5 * Second)"
  have z: "LastPushFailure (conns cdsClient 7) = timeZero"
    by (simp add: cdsClient_conn timeZero_def)
  have nz: "LastPushFailure (conns stuckOnce 7) \<noteq> timeZero"
    by (simp add: stuckOnce_conn timeZero_def Second_def)
  have reg: "distinct (map snd (adsClients cdsClient)) \<and> (?k, 7) \<in> set (adsClients cdsClient)"
    by (simp add: cdsClient_fields)
  note first = broadcast_accounting [where s = cdsClient and c = 7 and now = "5 * Second" and k = ?k
      and sel = ?sel and before = "[]" and rest = "[]"]
  note late = broadcast_accounting [where s = stuckOnce and c = 7 and now = "16 * Second" and k = ?k
      and sel = ?sel and before = "[]" and rest = "[]"]
  note early = broadcast_accounting [where s = stuckOnce and c = 7 and now = "15 * Second" and k = ?k
      and sel = ?sel and before = "[]" and rest = "[]"]
  note sent = broadcast_accounting [where s = stuckOnce and c = 7 and now = "20 * Second" and k = ?k
      and sel = ?sel and before = "[]" and rest = "[]"]
  have l: "pushErrors (pushClient (TimedOut, 16 * Second) 7 stuckOnce) ''long'' \<noteq> pushErrors stuckOnce ''long''"
    using late nz by (simp add: stuckOnce_conn stuckOnce_fields Second_def)
  from first z reg have a:
    "LastPushFailure (conns (pushClient (TimedOut, 5 * Second) 7 cdsClient) 7) = 5 * Second"
    "pushErrors (pushClient (TimedOut, 5 * Second) 7 cdsClient) ''short'' = 1"
    "pushErrors (pushClient (TimedOut, 5 * Second) 7 cdsClient) ''long'' = 0"
    "pushTimeouts (pushClient (TimedOut, 5 * Second) 7 cdsClient) = 1"
    "conns stuckOnce 7 = conns (pushClient (TimedOut, 5 * Second) 7 cdsClient) 7"
    "pushTimeouts stuckOnce = 1"
    by (simp_all add: cdsClient_fields stuckOnce_def)
  from early nz have b:
    "conns (pushClient (TimedOut, 15 * Second) 7 stuckOnce) = conns stuckOnce"
    "pushErrors (pushClient (TimedOut, 15 * Second) 7 stuckOnce) ''short'' = 1"
    "pushErrors (pushClient (TimedOut, 15 * Second) 7 stuckOnce) ''long'' = 0"
    by (simp_all add: stuckOnce_conn stuckOnce_fields Second_def)
  from late nz l have c:
    "pushErrors (pushClient (TimedOut, 16 * Second) 7 stuckOnce) ''long'' = 1"
    "10 * Second \<le> 16 * Second - LastPushFailure (conns stuckOnce 7)"
    by (simp_all add: stuckOnce_conn stuckOnce_fields Second_def)
  from sent have d:
    "LastPush (conns (pushClient (PushSent, 20 * Second) 7 stuckOnce) 7) = 20 * Second"
    "LastPushFailure (conns (pushClient (PushSent, 20 * Second) 7 stuckOnce) 7) = timeZero"
    "pushClient (DoneFired, 20 * Second) 7 stuckOnce = stuckOnce"
    by simp_all
  from a b c d show ?thesis by simp
qed

subsection \<open>The EDS index\<close>





lemma removeEdsCon_simps:
  "conns (removeEdsCon c cid p s) = conns s"
  "adsClients (removeEdsCon c cid p s) = adsClients s"
  by (simp_all add: removeEdsCon_def split: option.splits)

lemma fold_removeEdsCon_simps:
  "conns (fold (\<lambda>c. removeEdsCon c cid p) cs s) = conns s"
  "adsClients (fold (\<lambda>c. removeEdsCon c cid p) cs s) = adsClients s"
  by (induction cs arbitrary: s) (simp_all add: removeEdsCon_simps)





































subsection \<open>The hosts of an external v1 cluster\<close>

text \<open>
  C7. For the external host \<^verbatim>\<open>example.com\<close> and port 80, the cluster that
  \<^verbatim>\<open>BuildOutboundCluster\<close> builds is of type strict DNS, and its one host is
  \<^verbatim>\<open>tcp://example.com:%d80\<close>, not \<^verbatim>\<open>tcp://example.com:80\<close>:
  \<^verbatim>\<open>joinIPPort\<close> renders the port with \<^verbatim>\<open>fmt.Sprint("%d", port)\<close>, which
  prints the format string in front of the number.
\<close>

theorem BuildOutboundCluster_external_host:
  "V1_Hosts (BuildOutboundCluster Key TruncateClusterName ''example.com''
      \<lparr>Port_Name = ''http'', Port_Port = 80, Port_Protocol = ProtocolHTTP\<rparr> [] True)
     = [''tcp://example.com:%d80'']
   \<and> V1_Type (BuildOutboundCluster Key TruncateClusterName ''example.com''
      \<lparr>Port_Name = ''http'', Port_Port = 80, Port_Protocol = ProtocolHTTP\<rparr> [] True)
     = ClusterTypeStrictDNS"
  by (simp add: BuildOutboundCluster_def joinIPPort_def JoinHostPort_def Sprint_string_int_def
        itoa_def decimal.simps digit_def Let_def)

subsection \<open>Connect timeouts of the clusters\<close>

lemmas eval_clusters =
  BuildClusters_def buildOutboundClusters_def buildInboundClusters_def
  buildInboundCluster_def buildDefaultCluster_def buildDefaultTrafficPolicy_def
  applyTrafficPolicy_def applyConnectionPool_def applyOutlierDetection_def
  applyLoadBalancer_def applyUpstreamTLSSettings_def setUpstreamProtocol_def updateEds_def
  callInboundCluster_def callOutboundCluster_def emptyCluster_def buildBlackHoleCluster_def
  BlackHoleCluster_def convertResolution_def buildClusterHosts_def ensureConnectTimeout_def
  defaultClusterConnectTimeout_def Second_def BuildSubsetKey_def BuildAddress_def
  refDeps_def refEnvironment_def refMesh_def zeroTimeoutMesh_def sidecarNode_def routerNode_def
  instanceA_def serviceA_def httpPort80_def itoa_80 Let_def

lemma blackhole_timeout: "Cluster_ConnectTimeout buildBlackHoleCluster = 5 * Second"
  by (simp add: buildBlackHoleCluster_def defaultClusterConnectTimeout_def emptyCluster_def)

text \<open>
  The list that \<^verbatim>\<open>BuildClusters\<close> returns: the outbound clusters, each passed
  through the check of the connect timeout, then, for a sidecar, the inbound and the
  management clusters as \<^verbatim>\<open>buildInboundClusters\<close> built them, then the blackhole
  cluster. The check covers the outbound clusters only: after it a connect timeout is not
  zero, and one that was zero is the fixed default of 5 seconds.
\<close>

lemma BuildClusters_clusters:
  assumes sv: "Services env = Inr services"
  shows "BuildClusters d plugins env proxy =
           (if Proxy_Type proxy = Sidecar
            then (case GetProxyServiceInstances env proxy of
                    Inl err \<Rightarrow> Inl err
                  | Inr instances \<Rightarrow>
                      Inr (map ensureConnectTimeout (buildOutboundClusters d plugins env proxy services)
                           @ map (buildInboundCluster d plugins env proxy) instances
                           @ map (buildMgmtCluster d env) (ManagementPorts env (IPAddress proxy))
                           @ [buildBlackHoleCluster]))
            else Inr (map ensureConnectTimeout (buildOutboundClusters d plugins env proxy services)
                      @ [buildBlackHoleCluster]))"
  using sv by (simp add: BuildClusters_def buildInboundClusters_def Let_def split: sum.splits)

lemma ensureConnectTimeout_result:
  "Cluster_ConnectTimeout (ensureConnectTimeout c) \<noteq> 0"
  "Cluster_ConnectTimeout c = 0 \<Longrightarrow> Cluster_ConnectTimeout (ensureConnectTimeout c) = 5 * Second"
  "Cluster_ConnectTimeout c \<noteq> 0 \<Longrightarrow> ensureConnectTimeout c = c"
  by (simp_all add: ensureConnectTimeout_def defaultClusterConnectTimeout_def Second_def)

lemma outbound_zero_timeout_replaced:
  "\<not> isl (BuildClusters refDeps [] (refEnvironment [serviceA] [] zeroTimeoutMesh) routerNode)
   \<and> map Cluster_Name (projr (BuildClusters refDeps [] (refEnvironment [serviceA] [] zeroTimeoutMesh) routerNode))
       = [''outbound|80||a.ns.svc.cluster.local'', ''BlackHoleCluster'']
   \<and> map Cluster_ConnectTimeout (buildOutboundClusters refDeps [] (refEnvironment [serviceA] [] zeroTimeoutMesh)
                                    routerNode [serviceA]) = [0]
   \<and> map Cluster_ConnectTimeout
         (projr (BuildClusters refDeps [] (refEnvironment [serviceA] [] zeroTimeoutMesh) routerNode))
       = [5000000000, 5000000000]"
  by (simp add: eval_clusters)

text \<open>
  C6. For a sidecar with one local instance, no destination rule and a mesh connect
  timeout of zero, \<^verbatim>\<open>BuildClusters\<close> returns the inbound cluster of the instance and
  the blackhole cluster, and the connect timeout of the inbound cluster is zero: the
  check that replaces a zero connect timeout has run before the inbound clusters are
  appended, although the reason the code gives for it (Envoy requires a non-zero connect
  timeout) holds for every cluster of the list.
\<close>

theorem inbound_cluster_zero_timeout:
  "\<not> isl (BuildClusters refDeps [] (refEnvironment [] [instanceA] zeroTimeoutMesh) sidecarNode)
   \<and> map Cluster_Name (projr (BuildClusters refDeps [] (refEnvironment [] [instanceA] zeroTimeoutMesh) sidecarNode))
       = [''inbound|80||a.ns.svc.cluster.local'', ''BlackHoleCluster'']
   \<and> map Cluster_ConnectTimeout
         (projr (BuildClusters refDeps [] (refEnvironment [] [instanceA] zeroTimeoutMesh) sidecarNode))
       = [0, 5000000000]"
  by (simp add: eval_clusters)

text \<open>
  The same with a mesh connect timeout of one second and a destination rule for the
  service whose connection pool sets a TCP connect timeout of zero: the inbound cluster
  takes the timeout of the rule.
\<close>

lemma inbound_cluster_rule_zero_timeout:
  "\<not> isl (BuildClusters refDeps [] ruleEnvironment sidecarNode)
   \<and> map Cluster_Name (projr (BuildClusters refDeps [] ruleEnvironment sidecarNode))
       = [''inbound|80||a.ns.svc.cluster.local'', ''BlackHoleCluster'']
   \<and> Seconds (Mesh_ConnectTimeout (Mesh ruleEnvironment)) = 1
   \<and> map Cluster_ConnectTimeout (projr (BuildClusters refDeps [] ruleEnvironment sidecarNode))
       = [0, 5000000000]"
  by (simp add: ruleEnvironment_def zeroTimeoutRule_def eval_clusters positive_def)

subsection \<open>Conflicts of outbound listeners\<close>

lemmas eval_listeners =
  outboundPortStep_def finishOutboundListener_def callListenerPlugins_def newMutable_def
  buildListener_def marshalFilters_def buildHTTPConnectionManager_def emptyConnectionManager_def
  emptyPluginChain_def listenerTypeOf_def listenerConflict_def warn_def
  BuildSubsetKey_def BuildAddress_def WildcardAddress_def LocalhostAddress_def
  refDeps_def refListenerDeps_def refEnvironment_def refMesh_def sidecarNode_def
  serviceA_def serviceB_def httpPort80_def tcpPort80_def emptyOutbound_def emptyGenState_def
  itoa_80 Let_def













lemma listenerTypeOf_gen [simp]: "listenerTypeOf (st\<lparr>gen := g\<rparr>) key = listenerTypeOf st key"
  by (simp add: listenerTypeOf_def)

















text \<open>
  An entry of the listener map stays under its key, with its name and its protocol; later
  ports can only append filter chains to it. An entry was made by the first port that
  found its key free.
\<close>

lemma extend_nothing: "l = l\<lparr>L_FilterChains := L_FilterChains l @ []\<rparr>"
  by simp








lemma first_port_enters:
  assumes key: "outboundListenerKey d node service servicePort = Some key"
      and none: "map_of (listenerMap st) key = None"
  shows "\<exists>st' l. outboundPortStep d ld [] env node proxyInstances services service servicePort st = Ok st'
           \<and> map_of (listenerMap st') key = Some l
           \<and> length (L_FilterChains l) = 1
           \<and> listenerTypeOf st' key = Port_Protocol servicePort
           \<and> gen st' = gen st"
proof (cases "ModelProtocolToListenerType d (Port_Protocol servicePort)")
  case ListenerTypeUnknown
  with key show ?thesis by (simp add: outboundListenerKey_def)
next
  case ListenerTypeHTTP
  with key have k: "key = WildcardAddress @ '':'' @ itoa (Port_Port servicePort)"
    by (simp add: outboundListenerKey_def)
  from none show ?thesis unfolding k
    by (simp add: outboundPortStep_def ListenerTypeHTTP Let_def
        finishOutboundListener_def callListenerPlugins_def newMutable_def buildListener_def
        marshalFilters_def emptyPluginChain_def listenerTypeOf_def update_conv')
next
  case ListenerTypeTCP
  with key have k: "key = tcpListenAddress d service node @ '':'' @ itoa (Port_Port servicePort)"
    by (simp add: outboundListenerKey_def)
  from none show ?thesis unfolding k
    by (simp add: outboundPortStep_def ListenerTypeTCP Let_def tcpListenAddress_def
        finishOutboundListener_def callListenerPlugins_def newMutable_def buildListener_def
        marshalFilters_def emptyPluginChain_def listenerTypeOf_def update_conv')
qed






text \<open>
  The validation that ends the function is not part of the conflict: when it refuses the
  first listener, the later port is skipped and counted all the same, and no listener is
  returned for the key.
\<close>

lemma invalid_first_listener_dropped:
  "(case buildSidecarOutboundListeners refDeps (refListenerDeps\<lparr>Validate := (\<lambda>l. Some ''invalid'')\<rparr>) []
           (refEnvironment [serviceA, serviceB] [] refMesh) sidecarNode [] [serviceA, serviceB]
           emptyGenState of
      Ok (listeners, g) \<Rightarrow>
        (map L_Name listeners, conflictingOutbound g, invalidOutboundListeners g, length (genLog g))
    | Error err \<Rightarrow> ([], 0, 0, 0)
    | Panicked \<Rightarrow> ([], 0, 0, 0))
   = ([], 1, 1, 2)"
  by (simp add: buildSidecarOutboundListeners_def eval_listeners itoa_80)

lemma S3_outbound_listeners:
  "(case buildSidecarOutboundListeners refDeps refListenerDeps []
           (refEnvironment [serviceA, serviceB] [] refMesh) sidecarNode [] [serviceA, serviceB]
           emptyGenState of
      Ok (listeners, g) \<Rightarrow> (map L_Name listeners, conflictingOutbound g, length (genLog g))
    | Error err \<Rightarrow> ([], 0, 0)
    | Panicked \<Rightarrow> ([], 0, 0))
   = ([''::0_80''], 1, 1)"
  by (simp add: buildSidecarOutboundListeners_def eval_listeners itoa_80)

subsection \<open>The intercept port gates the listeners of a sidecar\<close>

lemma marshalFilters_httpProxy:
  assumes "Proxy_Type node = Sidecar"
  shows "\<exists>cm. marshalFilters (Some (Mesh env)) (buildListener (httpProxyOpts ld env node proxyInstances services))
             (httpProxyOpts ld env node proxyInstances services) [emptyPluginChain]
           = Ok \<lparr>L_Name = LocalhostAddress @ ''_'' @ itoa (Mesh_ProxyHttpPort (Mesh env)),
                 L_Address = BuildAddress LocalhostAddress (uint32 (Mesh_ProxyHttpPort (Mesh env))),
                 L_FilterChains = [\<lparr>FC_SniDomains = None, FC_TlsContext = None,
                                    FC_Filters = [HttpConnectionManagerFilter cm]\<rparr>],
                 L_BindToPortFalse = False, L_Transparent = None, L_UseOriginalDst = None\<rparr>"
  using assms
  by (simp add: marshalFilters_def httpProxyOpts_def buildListener_def emptyPluginChain_def)

text \<open>
  C10. For a sidecar, when the mesh's \<^verbatim>\<open>ProxyListenPort\<close> is not greater than zero,
  \<^verbatim>\<open>BuildListeners\<close> fails only with an error of the registry; otherwise it
  returns no listener at all when \<^verbatim>\<open>ProxyHttpPort\<close> is not greater than zero, and
  exactly one listener when it is: the HTTP proxy listener on the local address and that
  port, with one filter chain that holds an HTTP connection manager. No inbound,
  outbound, management or virtual listener is built, the gauges stay and nothing is
  logged.
\<close>

theorem intercept_port_gates_listeners:
  assumes sidecar: "Proxy_Type node = Sidecar"
      and gate: "\<not> Mesh_ProxyListenPort (Mesh env) > 0"
  shows "case BuildListeners d ld plugins env node g of
           Ok (listeners, g') \<Rightarrow>
             g' = g
             \<and> (if Mesh_ProxyHttpPort (Mesh env) > 0
                then \<exists>cm. listeners =
                       [\<lparr>L_Name = LocalhostAddress @ ''_'' @ itoa (Mesh_ProxyHttpPort (Mesh env)),
                         L_Address = BuildAddress LocalhostAddress (uint32 (Mesh_ProxyHttpPort (Mesh env))),
                         L_FilterChains = [\<lparr>FC_SniDomains = None, FC_TlsContext = None,
                                            FC_Filters = [HttpConnectionManagerFilter cm]\<rparr>],
                         L_BindToPortFalse = False, L_Transparent = None, L_UseOriginalDst = None\<rparr>]
                else listeners = [])
         | Error err \<Rightarrow> GetProxyServiceInstances env node = Inl err \<or> Services env = Inl err
         | Panicked \<Rightarrow> False"
proof (cases "GetProxyServiceInstances env node")
  case (Inl err)
  with sidecar show ?thesis by (simp add: BuildListeners_def buildSidecarListeners_def)
next
  case (Inr proxyInstances)
  show ?thesis
  proof (cases "Services env")
    case (Inl err)
    with Inr sidecar show ?thesis by (simp add: BuildListeners_def buildSidecarListeners_def)
  next
    case services: (Inr services0)
    obtain cm where "marshalFilters (Some (Mesh env))
             (buildListener (httpProxyOpts ld env node proxyInstances (sort_key Service_Hostname services0)))
             (httpProxyOpts ld env node proxyInstances (sort_key Service_Hostname services0)) [emptyPluginChain]
           = Ok \<lparr>L_Name = LocalhostAddress @ ''_'' @ itoa (Mesh_ProxyHttpPort (Mesh env)),
                 L_Address = BuildAddress LocalhostAddress (uint32 (Mesh_ProxyHttpPort (Mesh env))),
                 L_FilterChains = [\<lparr>FC_SniDomains = None, FC_TlsContext = None,
                                    FC_Filters = [HttpConnectionManagerFilter cm]\<rparr>],
                 L_BindToPortFalse = False, L_Transparent = None, L_UseOriginalDst = None\<rparr>"
      using marshalFilters_httpProxy [OF sidecar] by blast
    with Inr services sidecar gate show ?thesis
      by (simp add: BuildListeners_def buildSidecarListeners_def httpProxyListener_def Let_def)
  qed
qed

theorem intercept_port_gates_listeners_witness:
  "(\<exists>cm. BuildListeners refDeps refListenerDeps [] (refEnvironment [serviceA] [instanceA] proxyOnlyMesh)
             sidecarNode emptyGenState
           = Ok ([\<lparr>L_Name = ''::1_15002'', L_Address = (''::1'', 15002),
                    L_FilterChains = [\<lparr>FC_SniDomains = None, FC_TlsContext = None,
                                       FC_Filters = [HttpConnectionManagerFilter cm]\<rparr>],
                    L_BindToPortFalse = False, L_Transparent = None, L_UseOriginalDst = None\<rparr>],
                 emptyGenState))
   \<and> BuildListeners refDeps refListenerDeps [] (refEnvironment [serviceA] [instanceA] noPortMesh)
        sidecarNode emptyGenState
      = Ok ([], emptyGenState)"
proof -
  let ?envP = "refEnvironment [serviceA] [instanceA] proxyOnlyMesh"
  let ?envN = "refEnvironment [serviceA] [instanceA] noPortMesh"
  have sc: "Proxy_Type sidecarNode = Sidecar" by (simp add: sidecarNode_def)
  have gp: "\<not> Mesh_ProxyListenPort (Mesh ?envP) > 0" "Mesh_ProxyHttpPort (Mesh ?envP) = 15002"
    by (simp_all add: refEnvironment_def proxyOnlyMesh_def refMesh_def)
  have gn: "\<not> Mesh_ProxyListenPort (Mesh ?envN) > 0" "Mesh_ProxyHttpPort (Mesh ?envN) = 0"
    by (simp_all add: refEnvironment_def noPortMesh_def refMesh_def)
  have noerr: "GetProxyServiceInstances (refEnvironment a b c) n \<noteq> Inl e" "Services (refEnvironment a b c) \<noteq> Inl e"
    for a b c n e
    by (simp_all add: refEnvironment_def)
  have u: "uint32 15002 = 15002" by (simp add: uint32_def)
  from intercept_port_gates_listeners [OF sc gp(1), where d = refDeps and ld = refListenerDeps and plugins = "[]" and g = emptyGenState]
  have first: "\<exists>cm. BuildListeners refDeps refListenerDeps [] ?envP sidecarNode emptyGenState
           = Ok ([\<lparr>L_Name = ''::1_15002'', L_Address = (''::1'', 15002),
                    L_FilterChains = [\<lparr>FC_SniDomains = None, FC_TlsContext = None,
                                       FC_Filters = [HttpConnectionManagerFilter cm]\<rparr>],
                    L_BindToPortFalse = False, L_Transparent = None, L_UseOriginalDst = None\<rparr>],
                 emptyGenState)"
    by (cases "BuildListeners refDeps refListenerDeps [] ?envP sidecarNode emptyGenState")
       (auto simp add: gp(2) noerr LocalhostAddress_def itoa_15002 BuildAddress_def u)
  from intercept_port_gates_listeners [OF sc gn(1), where d = refDeps and ld = refListenerDeps and plugins = "[]" and g = emptyGenState]
  have second: "BuildListeners refDeps refListenerDeps [] ?envN sidecarNode emptyGenState
      = Ok ([], emptyGenState)"
    by (cases "BuildListeners refDeps refListenerDeps [] ?envN sidecarNode emptyGenState")
       (auto simp add: gn(2) noerr)
  from first second show ?thesis by blast
qed

end
